theory Spec2Isabelle
  imports Main "HOL-Library.Word" "HOL-Library.Signed_Division" "HOL-Library.Sublist"
begin

section \<open>The SFTPGo operator: data model\<close>

text \<open>
  A shallow embedding of the operator's two packages: the REST client of
  \<^verbatim>\<open>internal/sftpgo/client.go\<close> and the two reconcilers of
  \<^verbatim>\<open>internal/controller\<close>. Go's \<^verbatim>\<open>int32\<close> and \<^verbatim>\<open>int64\<close> are words read
  as two's complement; Go's \<^verbatim>\<open>int\<close> is taken at its 64-bit width. A Go pointer
  that may be nil is an \<open>option\<close>, a slice is a list (nil and the empty slice are
  both \<open>[]\<close>: the code only ever asks for their length). Record fields carry the
  Go field name behind a short prefix naming the struct, since Go reuses field
  names across structs. Fields that none of the modelled functions reads
  (rate limits, filters, filesystem, scheduling hints and the like) are left out.
\<close>

type_synonym int32 = "32 word"
type_synonym int64 = "64 word"
type_synonym go_int = "64 word"
type_synonym time = nat

subsection \<open>Errors\<close>

text \<open>
  An error is either the object store's not-found error (the one
  \<^verbatim>\<open>errors.IsNotFound\<close> recognises), the client's
  \<^verbatim>\<open>fmt.Errorf("API returned %d", code)\<close>, or any other failure with its text.
\<close>

datatype error = NotFound string | APIReturned int | Failure string

fun IsNotFound :: "error \<Rightarrow> bool" where
  "IsNotFound (NotFound m) = True"
| "IsNotFound (APIReturned c) = False"
| "IsNotFound (Failure m) = False"

subsection \<open>Formatting\<close>

text \<open>The verb \<^verbatim>\<open>%d\<close> of \<^verbatim>\<open>fmt.Sprintf\<close>: decimal digits, a minus sign when negative.\<close>

definition digit :: "nat \<Rightarrow> char" where
  "digit d = ''0123456789'' ! d"

fun digits :: "nat \<Rightarrow> string" where
  "digits n = (if n < 10 then [digit n] else digits (n div 10) @ [digit (n mod 10)])"

declare digits.simps [simp del]

definition fmt_d :: "int \<Rightarrow> string" where
  "fmt_d i = (if i < 0 then CHR ''-'' # digits (nat (- i)) else digits (nat i))"

fun Error :: "error \<Rightarrow> string" where
  "Error (NotFound m) = m"
| "Error (APIReturned c) = ''API returned '' @ fmt_d c"
| "Error (Failure m) = m"

subsection \<open>The custom resources (api/v1alpha1)\<close>

record SecretRef =
  sref_Name :: string
  sref_Key :: string

record VirtualFolder =
  vfs_VirtualPath :: string
  vfs_PhysicalPath :: string
  vfs_Quota :: int64

record Quota =
  q_Size :: int64
  q_Files :: go_int

record BandwidthLimits =
  bl_Upload :: int64
  bl_Download :: int64

record ServerRef =
  ref_Name :: string
  ref_Namespace :: string

record SftpGoUserSpec =
  us_Username :: string
  us_Password :: string
  us_PasswordSecretRef :: "SecretRef option"
  us_PublicKeys :: "string list"
  us_PublicKeysSecretRef :: "SecretRef option"
  us_Email :: string
  us_Status :: string
  us_HomeDir :: string
  us_VirtualFolders :: "VirtualFolder list"
  us_Permissions :: "string list"
  us_Quota :: "Quota option"
  us_BandwidthLimits :: "BandwidthLimits option"
  us_MaxSessions :: go_int
  us_AllowedIP :: "string list"
  us_DeniedIP :: "string list"
  us_Groups :: "string list"
  us_ServerRef :: ServerRef

datatype ConditionStatus = ConditionTrue | ConditionFalse | ConditionUnknown

record Condition =
  cond_Type :: string
  cond_Status :: ConditionStatus
  cond_Reason :: string
  cond_Message :: string
  cond_LastTransitionTime :: "time option"

record SftpGoUserStatus =
  ust_Phase :: string
  ust_UserID :: go_int
  ust_Conditions :: "Condition list"
  ust_LastSynced :: "time option"

record SftpGoUser =
  u_Name :: string
  u_Namespace :: string
  u_Finalizers :: "string list"
  u_DeletionTimestamp :: "time option"
  u_Spec :: SftpGoUserSpec
  u_Status :: SftpGoUserStatus

record PortConfig =
  pc_Port :: int32

record SFTPGOConfig =
  cfg_SFTP :: "PortConfig option"
  cfg_HTTP :: "PortConfig option"

record VolumeConfig =
  vol_StorageClass :: "string option"
  vol_Size :: string
  vol_MountPath :: string

record LocalObjectReference =
  lor_Name :: string

record SftpGoServerSpec =
  ss_Image :: string
  ss_Replicas :: "int32 option"
  ss_Config :: SFTPGOConfig
  ss_SFTPPort :: int32
  ss_WebPort :: int32
  ss_DataVolume :: "VolumeConfig option"
  ss_StorageBackend :: string
  ss_AdminSecretRef :: "LocalObjectReference option"

record SftpGoServer =
  srv_Name :: string
  srv_Namespace :: string
  srv_Spec :: SftpGoServerSpec

text \<open>
  \<open>PortConfig\<close> stands for both \<^verbatim>\<open>SFTPConfig\<close> and \<^verbatim>\<open>HTTPConfig\<close>, of which the
  controller reads the \<^verbatim>\<open>Port\<close> field only.
\<close>

section \<open>The REST client (internal/sftpgo/client.go)\<close>

record VF =
  vf_VirtualPath :: string
  vf_MappedPath :: string
  vf_QuotaSize :: int64
  vf_QuotaFiles :: go_int

record GM =
  gm_Name :: string
  gm_Type :: go_int

record UserPayload =
  up_ID :: go_int
  up_Username :: string
  up_Status :: go_int
  up_Email :: string
  up_Password :: string
  up_PublicKeys :: "string list"
  up_HomeDir :: string
  up_VirtualFolders :: "VF list"
  up_Permissions :: "(string \<times> string list) list"
  up_QuotaSize :: int64
  up_QuotaFiles :: go_int
  up_UploadBandwidth :: int64
  up_DownloadBandwidth :: int64
  up_MaxSessions :: go_int
  up_AllowedIP :: "string list"
  up_DeniedIP :: "string list"
  up_Groups :: "GM list"

subsection \<open>The JSON body of a request\<close>

text \<open>
  What \<^verbatim>\<open>json.Marshal\<close> makes of a \<^verbatim>\<open>UserPayload\<close>, following the struct tags:
  a field tagged \<^verbatim>\<open>omitempty\<close> is left out of the object when it is zero, the
  empty string or of length 0. Strings are kept byte for byte (where a string
  is not valid UTF-8, \<^verbatim>\<open>json.Marshal\<close> writes U+FFFD for the offending bytes: that
  changes the contents of a string, never which fields are present).
  Marshalling this struct (strings, integers,
  slices and a map with string keys) cannot fail, so the early return on its
  error has no branch in \<open>upsertUser\<close>.
\<close>

datatype json = JString string | JNumber int | JArray "json list" | JObject "(string \<times> json) list"

definition omitempty_string :: "string \<Rightarrow> string \<Rightarrow> (string \<times> json) list" where
  "omitempty_string k s = (if s = [] then [] else [(k, JString s)])"

definition omitempty_number :: "string \<Rightarrow> int \<Rightarrow> (string \<times> json) list" where
  "omitempty_number k i = (if i = 0 then [] else [(k, JNumber i)])"

definition omitempty_array :: "string \<Rightarrow> json list \<Rightarrow> (string \<times> json) list" where
  "omitempty_array k xs = (if xs = [] then [] else [(k, JArray xs)])"

definition marshal_VF :: "VF \<Rightarrow> json" where
  "marshal_VF v = JObject
     ([(''virtual_path'', JString (vf_VirtualPath v)),
       (''mapped_path'', JString (vf_MappedPath v))]
      @ omitempty_number ''quota_size'' (sint (vf_QuotaSize v))
      @ omitempty_number ''quota_files'' (sint (vf_QuotaFiles v)))"

definition marshal_GM :: "GM \<Rightarrow> json" where
  "marshal_GM g = JObject [(''name'', JString (gm_Name g)), (''type'', JNumber (sint (gm_Type g)))]"

definition marshal_fields :: "UserPayload \<Rightarrow> (string \<times> json) list" where
  "marshal_fields p =
     omitempty_number ''id'' (sint (up_ID p))
     @ [(''username'', JString (up_Username p)),
        (''status'', JNumber (sint (up_Status p)))]
     @ omitempty_string ''email'' (up_Email p)
     @ omitempty_string ''password'' (up_Password p)
     @ omitempty_array ''public_keys'' (map JString (up_PublicKeys p))
     @ [(''home_dir'', JString (up_HomeDir p))]
     @ omitempty_array ''virtual_folders'' (map marshal_VF (up_VirtualFolders p))
     @ (if up_Permissions p = [] then []
        else [(''permissions'',
               JObject (map (\<lambda>(path, perms). (path, JArray (map JString perms))) (up_Permissions p)))])
     @ omitempty_number ''quota_size'' (sint (up_QuotaSize p))
     @ omitempty_number ''quota_files'' (sint (up_QuotaFiles p))
     @ omitempty_number ''upload_bandwidth'' (sint (up_UploadBandwidth p))
     @ omitempty_number ''download_bandwidth'' (sint (up_DownloadBandwidth p))
     @ omitempty_number ''max_sessions'' (sint (up_MaxSessions p))
     @ omitempty_array ''allowed_ip'' (map JString (up_AllowedIP p))
     @ omitempty_array ''denied_ip'' (map JString (up_DeniedIP p))
     @ omitempty_array ''groups'' (map marshal_GM (up_Groups p))"

definition marshal :: "UserPayload \<Rightarrow> json" where
  "marshal p = JObject (marshal_fields p)"

subsection \<open>Requests, responses and the world outside\<close>

datatype http_method = MethodGet | MethodPost | MethodPut | MethodDelete

record http_request =
  req_Method :: http_method
  req_URL :: string
  req_BasicAuth :: "(string \<times> string) option"
  req_ContentType :: "string option"
  req_Body :: "json option"

text \<open>
  A response is its status code and what decoding its body into a
  \<^verbatim>\<open>UserPayload\<close> gives (read only on the paths that decode).
\<close>

record http_response =
  resp_StatusCode :: int
  resp_Decoded :: "error + UserPayload"

text \<open>
  The external collaborators of one reconciliation pass: the object store
  (typed get, update, status update), the secrets in it, the HTTP transport and
  the clock. \<open>http_NewRequest\<close> is the validation \<^verbatim>\<open>http.NewRequest\<close> does on
  the method and URL; \<open>http_Do\<close> answers a request or fails in transport;
  \<open>clock k\<close> is the k-th reading of the clock in the pass. Keys of the object
  store are (namespace, name).
\<close>

record env =
  k8s_GetUser :: "string \<times> string \<Rightarrow> error + SftpGoUser"
  k8s_GetServer :: "string \<times> string \<Rightarrow> error + SftpGoServer"
  k8s_GetSecret :: "string \<times> string \<Rightarrow> error + (string \<rightharpoonup> string)"
  k8s_Update :: "SftpGoUser \<Rightarrow> error option"
  k8s_StatusUpdate :: "SftpGoUser \<Rightarrow> error option"
  http_NewRequest :: "http_method \<Rightarrow> string \<Rightarrow> error option"
  http_Do :: "http_request \<Rightarrow> error + http_response"
  clock :: "nat \<Rightarrow> time"

record Client =
  c_BaseURL :: string
  c_Username :: string
  c_Password :: string

definition NewClient :: "string \<Rightarrow> string \<Rightarrow> string \<Rightarrow> Client" where
  "NewClient baseURL username password =
     \<lparr>c_BaseURL = baseURL, c_Username = username, c_Password = password\<rparr>"

definition ServiceURL :: "string \<Rightarrow> string \<Rightarrow> int32 \<Rightarrow> string" where
  "ServiceURL name namespace port =
     ''http://'' @ name @ ''.'' @ namespace @ ''.svc.cluster.local:'' @ fmt_d (sint port)"

definition setAuth :: "Client \<Rightarrow> http_request \<Rightarrow> http_request" where
  "setAuth c req =
     (if c_Username c \<noteq> [] \<and> c_Password c \<noteq> []
      then req\<lparr>req_BasicAuth := Some (c_Username c, c_Password c)\<rparr> else req)"

text \<open>
  Every client operation returns the requests it handed to the transport, in
  order, beside its Go result.
\<close>

definition GetUser :: "env \<Rightarrow> Client \<Rightarrow> string \<Rightarrow> http_request list \<times> (error + UserPayload option)" where
  "GetUser e c username =
     (let url = c_BaseURL c @ ''/api/v2/users/'' @ username in
      case http_NewRequest e MethodGet url of
        Some err \<Rightarrow> ([], Inl err)
      | None \<Rightarrow>
          (let req = setAuth c \<lparr>req_Method = MethodGet, req_URL = url, req_BasicAuth = None,
                                req_ContentType = None, req_Body = None\<rparr> in
           case http_Do e req of
             Inl err \<Rightarrow> ([req], Inl err)
           | Inr resp \<Rightarrow>
               if resp_StatusCode resp = 404 then ([req], Inr None)
               else if resp_StatusCode resp \<noteq> 200
                 then ([req], Inl (APIReturned (resp_StatusCode resp)))
               else (case resp_Decoded resp of
                       Inl err \<Rightarrow> ([req], Inl err)
                     | Inr user \<Rightarrow> ([req], Inr (Some user)))))"

definition upsertUser ::
    "env \<Rightarrow> Client \<Rightarrow> http_method \<Rightarrow> string \<Rightarrow> UserPayload \<Rightarrow> http_request list \<times> (error + UserPayload)" where
  "upsertUser e c method pathSuffix payload =
     (let body = marshal payload;
          url = c_BaseURL c @ ''/api/v2/users'';
          url = (if pathSuffix \<noteq> [] then url @ ''/'' @ pathSuffix else url) in
      case http_NewRequest e method url of
        Some err \<Rightarrow> ([], Inl err)
      | None \<Rightarrow>
          (let req = setAuth c \<lparr>req_Method = method, req_URL = url, req_BasicAuth = None,
                                req_ContentType = None, req_Body = Some body\<rparr>;
               req = req\<lparr>req_ContentType := Some ''application/json''\<rparr> in
           case http_Do e req of
             Inl err \<Rightarrow> ([req], Inl err)
           | Inr resp \<Rightarrow>
               if resp_StatusCode resp \<noteq> 200 \<and> resp_StatusCode resp \<noteq> 201
                 then ([req], Inl (APIReturned (resp_StatusCode resp)))
               else (case resp_Decoded resp of
                       Inl err \<Rightarrow> ([req], Inl err)
                     | Inr user \<Rightarrow> ([req], Inr user))))"

definition CreateUser :: "env \<Rightarrow> Client \<Rightarrow> UserPayload \<Rightarrow> http_request list \<times> (error + UserPayload)" where
  "CreateUser e c payload = upsertUser e c MethodPost [] payload"

definition UpdateUser ::
    "env \<Rightarrow> Client \<Rightarrow> string \<Rightarrow> UserPayload \<Rightarrow> http_request list \<times> (error + UserPayload)" where
  "UpdateUser e c username payload = upsertUser e c MethodPut username payload"

definition DeleteUser :: "env \<Rightarrow> Client \<Rightarrow> string \<Rightarrow> http_request list \<times> error option" where
  "DeleteUser e c username =
     (let url = c_BaseURL c @ ''/api/v2/users/'' @ username in
      case http_NewRequest e MethodDelete url of
        Some err \<Rightarrow> ([], Some err)
      | None \<Rightarrow>
          (let req = setAuth c \<lparr>req_Method = MethodDelete, req_URL = url, req_BasicAuth = None,
                                req_ContentType = None, req_Body = None\<rparr> in
           case http_Do e req of
             Inl err \<Rightarrow> ([req], Some err)
           | Inr resp \<Rightarrow>
               if resp_StatusCode resp \<noteq> 200
                 then ([req], Some (APIReturned (resp_StatusCode resp)))
               else ([req], None)))"

subsection \<open>From the custom resource to the payload\<close>

text \<open>
  Go's \<^verbatim>\<open>/\<close> on \<^verbatim>\<open>int64\<close> truncates towards zero (and wraps in the one case
  where the quotient does not fit).
\<close>

definition int64_quo :: "int64 \<Rightarrow> int64 \<Rightarrow> int64" where
  "int64_quo a b = word_of_int (sint a sdiv sint b)"

definition UserFromCR :: "SftpGoUserSpec \<Rightarrow> string \<Rightarrow> string list \<Rightarrow> UserPayload" where
  "UserFromCR spec password publicKeys =
     (let status = (if us_Status spec = ''disabled'' then 0 else 1);
          perm = (if length (us_Permissions spec) > 0 then [(''/'', us_Permissions spec)]
                  else [(''/'', [''*''])]);
          p = \<lparr>up_ID = 0, up_Username = us_Username spec, up_Status = status,
               up_Email = us_Email spec, up_Password = [], up_PublicKeys = [],
               up_HomeDir = us_HomeDir spec, up_VirtualFolders = [], up_Permissions = perm,
               up_QuotaSize = 0, up_QuotaFiles = 0, up_UploadBandwidth = 0,
               up_DownloadBandwidth = 0, up_MaxSessions = 0, up_AllowedIP = [],
               up_DeniedIP = [], up_Groups = []\<rparr>;
          p = (if password \<noteq> [] then p\<lparr>up_Password := password\<rparr> else p);
          p = (if length publicKeys > 0 then p\<lparr>up_PublicKeys := publicKeys\<rparr> else p);
          p = p\<lparr>up_VirtualFolders :=
                   map (\<lambda>vf. \<lparr>vf_VirtualPath = vfs_VirtualPath vf,
                               vf_MappedPath = vfs_PhysicalPath vf,
                               vf_QuotaSize = vfs_Quota vf, vf_QuotaFiles = 0\<rparr>)
                       (us_VirtualFolders spec)\<rparr>;
          p = (case us_Quota spec of
                 Some q \<Rightarrow> p\<lparr>up_QuotaSize := q_Size q, up_QuotaFiles := q_Files q\<rparr>
               | None \<Rightarrow> p);
          p = (case us_BandwidthLimits spec of
                 Some bl \<Rightarrow> p\<lparr>up_UploadBandwidth := int64_quo (bl_Upload bl) 1024,
                               up_DownloadBandwidth := int64_quo (bl_Download bl) 1024\<rparr>
               | None \<Rightarrow> p);
          p = (if 0 <s us_MaxSessions spec then p\<lparr>up_MaxSessions := us_MaxSessions spec\<rparr> else p);
          p = (if length (us_AllowedIP spec) > 0 then p\<lparr>up_AllowedIP := us_AllowedIP spec\<rparr> else p);
          p = (if length (us_DeniedIP spec) > 0 then p\<lparr>up_DeniedIP := us_DeniedIP spec\<rparr> else p);
          p = p\<lparr>up_Groups := map (\<lambda>g. \<lparr>gm_Name = g, gm_Type = 1\<rparr>) (us_Groups spec)\<rparr>
      in p)"

section \<open>The server reconciler's desired state (internal/controller)\<close>

definition sftpgoServerFinalizer :: string where
  "sftpgoServerFinalizer = ''sftpgo.sftpgo.io/finalizer''"

definition sftpgoDefaultImage :: string where
  "sftpgoDefaultImage = ''docker.io/drakkan/sftpgo:latest''"

definition applyDefaults :: "SftpGoServer \<Rightarrow> SftpGoServerSpec" where
  "applyDefaults s =
     (let spec = srv_Spec s;
          spec = (if ss_Image spec = [] then spec\<lparr>ss_Image := sftpgoDefaultImage\<rparr> else spec);
          spec = (if ss_Replicas spec = None then spec\<lparr>ss_Replicas := Some 1\<rparr> else spec);
          spec = (if ss_SFTPPort spec = 0 then spec\<lparr>ss_SFTPPort := 2022\<rparr> else spec);
          spec = (if ss_WebPort spec = 0 then spec\<lparr>ss_WebPort := 8080\<rparr> else spec);
          spec = (if ss_StorageBackend spec = [] then spec\<lparr>ss_StorageBackend := ''sqlite''\<rparr> else spec)
      in spec)"

definition getSFTPPort :: "SftpGoServerSpec \<Rightarrow> int32" where
  "getSFTPPort spec =
     (case cfg_SFTP (ss_Config spec) of
        Some c \<Rightarrow> if 0 <s pc_Port c then pc_Port c else ss_SFTPPort spec
      | None \<Rightarrow> ss_SFTPPort spec)"

definition getWebPort :: "SftpGoServerSpec \<Rightarrow> int32" where
  "getWebPort spec =
     (case cfg_HTTP (ss_Config spec) of
        Some c \<Rightarrow> if 0 <s pc_Port c then pc_Port c else ss_WebPort spec
      | None \<Rightarrow> ss_WebPort spec)"

definition nl :: string where
  "nl = [CHR 0x0A]"

definition sftpgoMinimalConfig :: "SftpGoServerSpec \<Rightarrow> bool \<Rightarrow> string" where
  \<open>sftpgoMinimalConfig spec createDefaultAdmin =
     (let sftpPort = 2022;
          sftpPort = (if 0 <s ss_SFTPPort spec then ss_SFTPPort spec else sftpPort);
          sftpPort = (case cfg_SFTP (ss_Config spec) of
                        Some c \<Rightarrow> if 0 <s pc_Port c then pc_Port c else sftpPort
                      | None \<Rightarrow> sftpPort);
          dataProvider = ''"driver": "'' @ ss_StorageBackend spec @ ''",'' @ nl
                         @ ''    "name": "/srv/sftpgo/sftpgo.db"'';
          dataProvider = (if createDefaultAdmin
                          then dataProvider @ '','' @ nl @ ''    "create_default_admin": true''
                          else dataProvider)
      in ''{'' @ nl
         @ ''  "sftpd": {'' @ nl
         @ ''    "bindings": [{"port": '' @ fmt_d (sint sftpPort)
             @ '', "address": "", "apply_proxy_config": true}],'' @ nl
         @ ''    "max_auth_tries": 0,'' @ nl
         @ ''    "host_keys": [],'' @ nl
         @ ''    "keyboard_interactive_authentication": true,'' @ nl
         @ ''    "password_authentication": true'' @ nl
         @ ''  },'' @ nl
         @ ''  "data_provider": {'' @ nl
         @ ''    '' @ dataProvider @ nl
         @ ''  },'' @ nl
         @ ''  "httpd": {'' @ nl
         @ ''    "bindings": [{"port": 8080, "address": "", "enable_web_admin": true, "enable_rest_api": true}]'' @ nl
         @ ''  }'' @ nl
         @ ''}'')\<close>

record ConfigMap =
  cm_Name :: string
  cm_Namespace :: string
  cm_Data :: "(string \<times> string) list"

definition configMapForServer :: "SftpGoServer \<Rightarrow> ConfigMap" where
  "configMapForServer s =
     (let spec = applyDefaults s;
          config = sftpgoMinimalConfig spec (ss_AdminSecretRef spec \<noteq> None)
      in \<lparr>cm_Name = srv_Name s, cm_Namespace = srv_Namespace s,
          cm_Data = [(''sftpgo.json'', config)]\<rparr>)"

record ServicePort =
  sp_Name :: string
  sp_Port :: int32
  sp_TargetPort :: int
  sp_Protocol :: string

record Service =
  svc_Name :: string
  svc_Namespace :: string
  svc_Selector :: "(string \<times> string) list"
  svc_Ports :: "ServicePort list"

definition intStr :: "int32 \<Rightarrow> int" where
  "intStr i = sint i"

definition serviceForServer :: "SftpGoServer \<Rightarrow> Service" where
  "serviceForServer s =
     (let spec = applyDefaults s;
          labels = [(''app'', ''sftpgo''), (''controller'', srv_Name s)]
      in \<lparr>svc_Name = srv_Name s, svc_Namespace = srv_Namespace s, svc_Selector = labels,
          svc_Ports =
            [\<lparr>sp_Name = ''sftp'', sp_Port = getSFTPPort spec,
              sp_TargetPort = intStr (getSFTPPort spec), sp_Protocol = ''TCP''\<rparr>,
             \<lparr>sp_Name = ''web'', sp_Port = getWebPort spec,
              sp_TargetPort = intStr (getWebPort spec), sp_Protocol = ''TCP''\<rparr>]\<rparr>)"

section \<open>The user reconciler (internal/controller)\<close>

definition sftpgoUserFinalizer :: string where
  "sftpgoUserFinalizer = ''sftpgo.sftpgo.io/user-finalizer''"

subsection \<open>Library operations the reconciler calls\<close>

text \<open>
  The finalizer helpers of controller-runtime and \<^verbatim>\<open>meta.SetStatusCondition\<close> of
  apimachinery, after their documented behaviour: the condition of the same
  type is updated in place (its transition time only when the status changes),
  and a condition of a new type is appended. The time argument is what the
  clock gives should the function read it.
\<close>

definition ContainsFinalizer :: "SftpGoUser \<Rightarrow> string \<Rightarrow> bool" where
  "ContainsFinalizer user f = (f \<in> set (u_Finalizers user))"

definition AddFinalizer :: "SftpGoUser \<Rightarrow> string \<Rightarrow> SftpGoUser" where
  "AddFinalizer user f =
     (if f \<in> set (u_Finalizers user) then user
      else user\<lparr>u_Finalizers := u_Finalizers user @ [f]\<rparr>)"

definition RemoveFinalizer :: "SftpGoUser \<Rightarrow> string \<Rightarrow> SftpGoUser" where
  "RemoveFinalizer user f = user\<lparr>u_Finalizers := filter (\<lambda>g. g \<noteq> f) (u_Finalizers user)\<rparr>"

fun SetStatusCondition :: "time \<Rightarrow> Condition list \<Rightarrow> Condition \<Rightarrow> Condition list" where
  "SetStatusCondition t [] new =
     [if cond_LastTransitionTime new = None then new\<lparr>cond_LastTransitionTime := Some t\<rparr> else new]"
| "SetStatusCondition t (c # cs) new =
     (if cond_Type c = cond_Type new
      then (let c' = (if cond_Status c \<noteq> cond_Status new
                      then c\<lparr>cond_Status := cond_Status new,
                             cond_LastTransitionTime :=
                               (if cond_LastTransitionTime new \<noteq> None
                                then cond_LastTransitionTime new else Some t)\<rparr>
                      else c)
            in c'\<lparr>cond_Reason := cond_Reason new, cond_Message := cond_Message new\<rparr> # cs)
      else c # SetStatusCondition t cs new)"

text \<open>
  \<^verbatim>\<open>strings.Split(raw, "\n")\<close>, and \<^verbatim>\<open>strings.TrimSpace\<close>: the runes of
  \<^verbatim>\<open>unicode.IsSpace\<close> in their UTF-8 encoding, stripped from the front and then
  from the back.
\<close>

fun Split_newline :: "string \<Rightarrow> string list" where
  "Split_newline [] = [[]]"
| "Split_newline (c # cs) =
     (if c = CHR 0x0A then [] # Split_newline cs
      else (case Split_newline cs of w # ws \<Rightarrow> (c # w) # ws | [] \<Rightarrow> [[c]]))"

definition space_runes :: "string list" where
  "space_runes =
     [[CHR 0x09], [CHR 0x0A], [CHR 0x0B], [CHR 0x0C], [CHR 0x0D], [CHR 0x20],
      [CHR 0xC2, CHR 0x85], [CHR 0xC2, CHR 0xA0], [CHR 0xE1, CHR 0x9A, CHR 0x80],
      [CHR 0xE2, CHR 0x80, CHR 0x80], [CHR 0xE2, CHR 0x80, CHR 0x81],
      [CHR 0xE2, CHR 0x80, CHR 0x82], [CHR 0xE2, CHR 0x80, CHR 0x83],
      [CHR 0xE2, CHR 0x80, CHR 0x84], [CHR 0xE2, CHR 0x80, CHR 0x85],
      [CHR 0xE2, CHR 0x80, CHR 0x86], [CHR 0xE2, CHR 0x80, CHR 0x87],
      [CHR 0xE2, CHR 0x80, CHR 0x88], [CHR 0xE2, CHR 0x80, CHR 0x89],
      [CHR 0xE2, CHR 0x80, CHR 0x8A], [CHR 0xE2, CHR 0x80, CHR 0xA8],
      [CHR 0xE2, CHR 0x80, CHR 0xA9], [CHR 0xE2, CHR 0x80, CHR 0xAF],
      [CHR 0xE2, CHR 0x81, CHR 0x9F], [CHR 0xE3, CHR 0x80, CHR 0x80]]"

fun trim_front :: "string list \<Rightarrow> nat \<Rightarrow> string \<Rightarrow> string" where
  "trim_front runes 0 s = s"
| "trim_front runes (Suc k) s =
     (case find (\<lambda>r. prefix r s) runes of
        Some r \<Rightarrow> trim_front runes k (drop (length r) s)
      | None \<Rightarrow> s)"

definition TrimSpace :: "string \<Rightarrow> string" where
  "TrimSpace s =
     (let s1 = trim_front space_runes (length s) s
      in rev (trim_front (map rev space_runes) (length s1) (rev s1)))"

definition HasPrefix :: "string \<Rightarrow> string \<Rightarrow> bool" where
  "HasPrefix s p = prefix p s"

subsection \<open>Resolving credentials and references\<close>

definition secret_value :: "(string \<rightharpoonup> string) \<Rightarrow> string \<Rightarrow> string" where
  "secret_value data k = (case data k of Some v \<Rightarrow> v | None \<Rightarrow> [])"

definition getAdminCredentials :: "env \<Rightarrow> SftpGoServer \<Rightarrow> error + (string \<times> string)" where
  "getAdminCredentials e server =
     (case ss_AdminSecretRef (srv_Spec server) of
        None \<Rightarrow> Inr ([], [])
      | Some r \<Rightarrow>
          if lor_Name r = [] then Inr ([], [])
          else (case k8s_GetSecret e (srv_Namespace server, lor_Name r) of
                  Inl err \<Rightarrow> Inl err
                | Inr data \<Rightarrow> Inr (secret_value data ''username'', secret_value data ''password'')))"

definition resolvePassword :: "env \<Rightarrow> SftpGoUser \<Rightarrow> error + string" where
  "resolvePassword e user =
     (if us_Password (u_Spec user) \<noteq> [] then Inr (us_Password (u_Spec user))
      else (case us_PasswordSecretRef (u_Spec user) of
              Some r \<Rightarrow>
                (case k8s_GetSecret e (u_Namespace user, sref_Name r) of
                   Inl err \<Rightarrow> Inl err
                 | Inr data \<Rightarrow> Inr (secret_value data (sref_Key r)))
            | None \<Rightarrow> Inr []))"

definition resolvePublicKeys :: "env \<Rightarrow> SftpGoUser \<Rightarrow> error + string list" where
  "resolvePublicKeys e user =
     (if length (us_PublicKeys (u_Spec user)) > 0 then Inr (us_PublicKeys (u_Spec user))
      else (case us_PublicKeysSecretRef (u_Spec user) of
              Some r \<Rightarrow>
                (case k8s_GetSecret e (u_Namespace user, sref_Name r) of
                   Inl err \<Rightarrow> Inl err
                 | Inr data \<Rightarrow>
                     (let raw = secret_value data (sref_Key r);
                          keys = Split_newline raw
                      in Inr (filter (\<lambda>k. k \<noteq> [] \<and> \<not> HasPrefix k ''#'') (map TrimSpace keys))))
            | None \<Rightarrow> Inr []))"

subsection \<open>Deleting the remote user\<close>

definition deleteUserFromSFTPGO :: "env \<Rightarrow> SftpGoUser \<Rightarrow> http_request list \<times> error option" where
  "deleteUserFromSFTPGO e user =
     (let ns = ref_Namespace (us_ServerRef (u_Spec user));
          ns = (if ns = [] then u_Namespace user else ns) in
      case k8s_GetServer e (ns, ref_Name (us_ServerRef (u_Spec user))) of
        Inl err \<Rightarrow> if IsNotFound err then ([], None) else ([], Some err)
      | Inr server \<Rightarrow>
          (case getAdminCredentials e server of
             Inl err \<Rightarrow> ([], None)
           | Inr (username, password) \<Rightarrow>
               if username = [] \<or> password = [] then ([], None)
               else (let webPort = 8080;
                         webPort = (if 0 <s ss_WebPort (srv_Spec server)
                                    then ss_WebPort (srv_Spec server) else webPort);
                         client = NewClient (ServiceURL (srv_Name server) ns webPort) username password
                     in DeleteUser e client (us_Username (u_Spec user)))))"

subsection \<open>One reconciliation pass\<close>

text \<open>
  What a pass leaves behind: the \<^verbatim>\<open>ctrl.Result\<close> and error it returns, the
  requests handed to the HTTP transport and the writes handed to the object
  store, each in order. A status write whose error the code discards
  (\<^verbatim>\<open>_ = r.Status().Update(ctx, user)\<close>) is a write all the same.
\<close>

datatype store_write = Update SftpGoUser | StatusUpdate SftpGoUser

record outcome =
  out_Requeue :: bool
  out_err :: "error option"
  out_calls :: "http_request list"
  out_writes :: "store_write list"

definition returns :: "bool \<Rightarrow> error option \<Rightarrow> http_request list \<Rightarrow> store_write list \<Rightarrow> outcome" where
  "returns requeue err calls writes =
     \<lparr>out_Requeue = requeue, out_err = err, out_calls = calls, out_writes = writes\<rparr>"

text \<open>
  The pair of statements that recurs in the pass,
  \<^verbatim>\<open>meta.SetStatusCondition(&user.Status.Conditions, c)\<close> and
  \<^verbatim>\<open>user.Status.Phase = phase\<close>.
\<close>

definition setCondition :: "time \<Rightarrow> SftpGoUser \<Rightarrow> Condition \<Rightarrow> SftpGoUser" where
  "setCondition t user c =
     user\<lparr>u_Status := (u_Status user)
            \<lparr>ust_Conditions := SetStatusCondition t (ust_Conditions (u_Status user)) c\<rparr>\<rparr>"

definition setPhase :: "SftpGoUser \<Rightarrow> string \<Rightarrow> SftpGoUser" where
  "setPhase user phase = user\<lparr>u_Status := (u_Status user)\<lparr>ust_Phase := phase\<rparr>\<rparr>"

definition notReady :: "string \<Rightarrow> string \<Rightarrow> Condition" where
  "notReady reason message =
     \<lparr>cond_Type = ''Ready'', cond_Status = ConditionFalse, cond_Reason = reason,
      cond_Message = message, cond_LastTransitionTime = None\<rparr>"

definition Reconcile :: "env \<Rightarrow> string \<times> string \<Rightarrow> outcome" where
  "Reconcile e req =
    (case k8s_GetUser e req of
       Inl err \<Rightarrow> if IsNotFound err then returns False None [] [] else returns False (Some err) [] []
     | Inr user \<Rightarrow>
       if \<not> ContainsFinalizer user sftpgoUserFinalizer then
         (let user = AddFinalizer user sftpgoUserFinalizer in
          case k8s_Update e user of
            Some err \<Rightarrow> returns False (Some err) [] [Update user]
          | None \<Rightarrow> returns True None [] [Update user])
       else if u_DeletionTimestamp user \<noteq> None then
         (case deleteUserFromSFTPGO e user of
            (calls, Some err) \<Rightarrow> returns False (Some err) calls []
          | (calls, None) \<Rightarrow>
              (let user = RemoveFinalizer user sftpgoUserFinalizer in
               case k8s_Update e user of
                 Some err \<Rightarrow> returns False (Some err) calls [Update user]
               | None \<Rightarrow> returns False None calls [Update user]))
       else
         (let ns = ref_Namespace (us_ServerRef (u_Spec user));
              ns = (if ns = [] then u_Namespace user else ns) in
          case k8s_GetServer e (ns, ref_Name (us_ServerRef (u_Spec user))) of
            Inl err \<Rightarrow>
              if IsNotFound err then
                (let user = setCondition (clock e 0) user
                              (notReady ''ServerNotFound''
                                 (''SftpGoServer '' @ ref_Name (us_ServerRef (u_Spec user))
                                  @ '' not found in namespace '' @ ns));
                     user = setPhase user ''Error''
                 in returns False None [] [StatusUpdate user])
              else returns False (Some err) [] []
          | Inr server \<Rightarrow>
            (let webPort = 8080;
                 webPort = (if 0 <s ss_WebPort (srv_Spec server)
                            then ss_WebPort (srv_Spec server) else webPort);
                 baseURL = ServiceURL (srv_Name server) ns webPort in
             case getAdminCredentials e server of
               Inl err \<Rightarrow>
                 (let user = setCondition (clock e 0) user (notReady ''AuthError'' (Error err));
                      user = setPhase user ''Error''
                  in returns False (Some err) [] [StatusUpdate user])
             | Inr (username, password) \<Rightarrow>
               if username = [] \<or> password = [] then
                 (let user = setCondition (clock e 0) user
                               (notReady ''AuthNotConfigured''
                                  ''SftpGoServer AdminSecretRef not configured - cannot manage users via API'');
                      user = setPhase user ''Pending''
                  in returns False None [] [StatusUpdate user])
               else
                 (let client = NewClient baseURL username password in
                  case resolvePassword e user of
                    Inl err \<Rightarrow> returns False (Some err) [] []
                  | Inr userPassword \<Rightarrow>
                    (case resolvePublicKeys e user of
                       Inl err \<Rightarrow> returns False (Some err) [] []
                     | Inr publicKeys \<Rightarrow>
                       (let payload = UserFromCR (u_Spec user) userPassword publicKeys in
                        case GetUser e client (us_Username (u_Spec user)) of
                          (calls, Inl err) \<Rightarrow>
                            (let user = setCondition (clock e 0) user (notReady ''APIError'' (Error err));
                                 user = setPhase user ''Error''
                             in returns False (Some err) calls [StatusUpdate user])
                        | (calls, Inr existing) \<Rightarrow>
                          (case
                             (case existing of
                                Some ex \<Rightarrow>
                                  (let payload = payload\<lparr>up_ID := up_ID ex\<rparr>;
                                       payload = (if userPassword = []
                                                  then payload\<lparr>up_Password := []\<rparr> else payload)
                                   in Inr (UpdateUser e client (us_Username (u_Spec user)) payload))
                              | None \<Rightarrow>
                                  if userPassword = [] \<and> length publicKeys = 0 then
                                    (let user = setCondition (clock e 0) user
                                                  (notReady ''ValidationError''
                                                     ''New user requires either password or publicKeys'');
                                         user = setPhase user ''Error''
                                     in Inl (returns False None calls [StatusUpdate user]))
                                  else Inr (CreateUser e client payload))
                           of
                             Inl early \<Rightarrow> early
                           | Inr (calls', Inl err) \<Rightarrow>
                               (let user = setCondition (clock e 0) user (notReady ''APIError'' (Error err));
                                    user = setPhase user ''Error''
                                in returns False (Some err) (calls @ calls') [StatusUpdate user])
                           | Inr (calls', Inr written) \<Rightarrow>
                               (let now = clock e 0;
                                    user = setCondition (clock e 1) user
                                             \<lparr>cond_Type = ''Ready'', cond_Status = ConditionTrue,
                                              cond_Reason = ''Synced'', cond_Message = [],
                                              cond_LastTransitionTime = None\<rparr>;
                                    user = setPhase user ''Synced'';
                                    user = user\<lparr>u_Status := (u_Status user)\<lparr>ust_LastSynced := Some now\<rparr>\<rparr>;
                                    user = (case existing of
                                              Some ex \<Rightarrow>
                                                user\<lparr>u_Status := (u_Status user)\<lparr>ust_UserID := up_ID ex\<rparr>\<rparr>
                                            | None \<Rightarrow> user)
                                in case k8s_StatusUpdate e user of
                                     Some err \<Rightarrow> returns False (Some err) (calls @ calls') [StatusUpdate user]
                                   | None \<Rightarrow> returns False None (calls @ calls') [StatusUpdate user]))))))))"

subsection \<open>Names for what the pass computes on its way\<close>

text \<open>
  The key under which the pass looks the referenced server up (the reference's
  namespace, the user's own when unset) and the client it builds from the
  server and the admin credentials.
\<close>

definition serverKey :: "SftpGoUser \<Rightarrow> string \<times> string" where
  "serverKey user =
     (if ref_Namespace (us_ServerRef (u_Spec user)) = [] then u_Namespace user
      else ref_Namespace (us_ServerRef (u_Spec user)),
      ref_Name (us_ServerRef (u_Spec user)))"

definition adminClient :: "SftpGoUser \<Rightarrow> SftpGoServer \<Rightarrow> string \<Rightarrow> string \<Rightarrow> Client" where
  "adminClient user server username password =
     NewClient (ServiceURL (srv_Name server) (fst (serverKey user))
                  (if 0 <s ss_WebPort (srv_Spec server) then ss_WebPort (srv_Spec server) else 8080))
       username password"

text \<open>The user object a status write carried, and the condition of a type in a list.\<close>

fun written_user :: "store_write \<Rightarrow> SftpGoUser" where
  "written_user (Update u) = u"
| "written_user (StatusUpdate u) = u"

definition FindStatusCondition :: "Condition list \<Rightarrow> string \<Rightarrow> Condition option" where
  "FindStatusCondition cs t = find (\<lambda>c. cond_Type c = t) cs"

section \<open>A small world to run the pass in\<close>

text \<open>
  A user \<open>alice\<close> in namespace \<open>default\<close> that refers to the server \<open>sftp\<close>,
  whose admin secret holds a user name and a password; a remote service that
  knows alice under the identifier 7 and answers every request with success.
\<close>

definition ex_spec :: SftpGoUserSpec where
  "ex_spec = \<lparr>us_Username = ''alice'', us_Password = [], us_PasswordSecretRef = None,
     us_PublicKeys = [], us_PublicKeysSecretRef = None, us_Email = [], us_Status = ''enabled'',
     us_HomeDir = ''/srv/alice'', us_VirtualFolders = [], us_Permissions = [], us_Quota = None,
     us_BandwidthLimits = Some \<lparr>bl_Upload = 1048576, bl_Download = 512\<rparr>,
     us_MaxSessions = 0, us_AllowedIP = [], us_DeniedIP = [], us_Groups = [],
     us_ServerRef = \<lparr>ref_Name = ''sftp'', ref_Namespace = []\<rparr>\<rparr>"

definition ex_user :: SftpGoUser where
  "ex_user = \<lparr>u_Name = ''alice'', u_Namespace = ''default'',
     u_Finalizers = [sftpgoUserFinalizer], u_DeletionTimestamp = None, u_Spec = ex_spec,
     u_Status = \<lparr>ust_Phase = [], ust_UserID = 0, ust_Conditions = [], ust_LastSynced = None\<rparr>\<rparr>"

definition ex_server_spec :: SftpGoServerSpec where
  "ex_server_spec = \<lparr>ss_Image = [], ss_Replicas = None,
     ss_Config = \<lparr>cfg_SFTP = None, cfg_HTTP = None\<rparr>, ss_SFTPPort = 0, ss_WebPort = 0,
     ss_DataVolume = None, ss_StorageBackend = [],
     ss_AdminSecretRef = Some \<lparr>lor_Name = ''admin''\<rparr>\<rparr>"

definition ex_server :: SftpGoServer where
  "ex_server = \<lparr>srv_Name = ''sftp'', srv_Namespace = ''default'', srv_Spec = ex_server_spec\<rparr>"

definition ex_remote :: UserPayload where
  "ex_remote = \<lparr>up_ID = 7, up_Username = ''alice'', up_Status = 1, up_Email = [],
     up_Password = [], up_PublicKeys = [], up_HomeDir = ''/srv/alice'', up_VirtualFolders = [],
     up_Permissions = [(''/'', [''*''])], up_QuotaSize = 0, up_QuotaFiles = 0,
     up_UploadBandwidth = 1024, up_DownloadBandwidth = 0, up_MaxSessions = 0,
     up_AllowedIP = [], up_DeniedIP = [], up_Groups = []\<rparr>"

definition ex_client :: Client where
  "ex_client = NewClient ''http://sftp.default.svc.cluster.local:8080'' ''admin'' ''pw''"

definition ex_env :: "SftpGoUser \<Rightarrow> (http_request \<Rightarrow> error + http_response) \<Rightarrow> env" where
  "ex_env user transport =
     \<lparr>k8s_GetUser = (\<lambda>k. if k = (''default'', ''alice'') then Inr user
                          else Inl (NotFound ''sftpgousers not found'')),
      k8s_GetServer = (\<lambda>k. if k = (''default'', ''sftp'') then Inr ex_server
                            else Inl (NotFound ''sftpgoservers not found'')),
      k8s_GetSecret = (\<lambda>k. if k = (''default'', ''admin'')
                            then Inr [''username'' \<mapsto> ''admin'', ''password'' \<mapsto> ''pw'']
                            else Inl (NotFound ''secrets not found'')),
      k8s_Update = (\<lambda>u. None),
      k8s_StatusUpdate = (\<lambda>u. None),
      http_NewRequest = (\<lambda>m u. None),
      http_Do = transport,
      clock = (\<lambda>k. 1000 + k)\<rparr>"

text \<open>Two remote services: one that knows alice, one that does not.\<close>

definition remote_present :: "http_request \<Rightarrow> error + http_response" where
  "remote_present r = Inr \<lparr>resp_StatusCode = 200, resp_Decoded = Inr ex_remote\<rparr>"

definition remote_absent :: "http_request \<Rightarrow> error + http_response" where
  "remote_absent r =
     (if req_Method r = MethodPost
      then Inr \<lparr>resp_StatusCode = 201, resp_Decoded = Inr ex_remote\<rparr>
      else Inr \<lparr>resp_StatusCode = 404, resp_Decoded = Inl (Failure ''EOF'')\<rparr>)"

definition ex_req :: "string \<times> string" where
  "ex_req = (''default'', ''alice'')"

text \<open>The lookup the pass sends for alice.\<close>

definition ex_get :: http_request where
  "ex_get = \<lparr>req_Method = MethodGet,
     req_URL = ''http://sftp.default.svc.cluster.local:8080/api/v2/users/alice'',
     req_BasicAuth = Some (''admin'', ''pw''), req_ContentType = None, req_Body = None\<rparr>"

text \<open>
  Variations on alice: one being deleted, one being deleted whose server is
  gone, one that brings a password, one whose password secret does not exist.
\<close>

definition ex_leaving :: SftpGoUser where
  "ex_leaving = ex_user\<lparr>u_DeletionTimestamp := Some 5\<rparr>"

definition ex_orphan :: SftpGoUser where
  "ex_orphan = ex_user\<lparr>u_DeletionTimestamp := Some 5,
     u_Spec := ex_spec\<lparr>us_ServerRef := \<lparr>ref_Name = ''gone'', ref_Namespace = []\<rparr>\<rparr>\<rparr>"

definition ex_new_user :: SftpGoUser where
  "ex_new_user = ex_user\<lparr>u_Spec := ex_spec\<lparr>us_Password := ''s3cret''\<rparr>\<rparr>"

definition ex_bad_secret_user :: SftpGoUser where
  "ex_bad_secret_user = ex_user\<lparr>u_Spec := ex_spec
     \<lparr>us_PasswordSecretRef := Some \<lparr>sref_Name = ''missing'', sref_Key = ''password''\<rparr>\<rparr>\<rparr>"

text \<open>The delete and the create the pass sends for alice.\<close>

definition ex_delete :: http_request where
  "ex_delete = ex_get\<lparr>req_Method := MethodDelete\<rparr>"

definition ex_post :: http_request where
  "ex_post = \<lparr>req_Method = MethodPost,
     req_URL = ''http://sftp.default.svc.cluster.local:8080/api/v2/users'',
     req_BasicAuth = Some (''admin'', ''pw''), req_ContentType = Some ''application/json'',
     req_Body = Some (marshal (UserFromCR (u_Spec ex_new_user) ''s3cret'' []))\<rparr>"

text \<open>
  The user as the pass leaves it on success, before the identifier is recorded
  (lines 675 to 682 of the reconciler): condition \<open>Ready\<close> true, phase
  \<open>Synced\<close>, last-synced time.
\<close>

definition synced :: "env \<Rightarrow> SftpGoUser \<Rightarrow> SftpGoUser" where
  "synced e user =
     (let user = setCondition (clock e 1) user
                   \<lparr>cond_Type = ''Ready'', cond_Status = ConditionTrue, cond_Reason = ''Synced'',
                    cond_Message = [], cond_LastTransitionTime = None\<rparr>;
          user = setPhase user ''Synced''
      in user\<lparr>u_Status := (u_Status user)\<lparr>ust_LastSynced := Some (clock e 0)\<rparr>\<rparr>)"

section \<open>Bandwidth limits in the payload\<close>

lemma sdiv_1024_between: "min k 0 \<le> (k::int) sdiv 1024 \<and> k sdiv 1024 \<le> max k 0"
proof (cases "0 \<le> k")
  case True
  then have "k sdiv 1024 = k div 1024"
    by (simp add: signed_divide_int_def sgn_if)
  moreover have "0 \<le> k div 1024" "k div 1024 \<le> k"
    using True by (simp_all add: pos_imp_zdiv_nonneg_iff zdiv_mono2 [of k 1 1024, simplified])
  ultimately show ?thesis using True by simp
next
  case False
  then have "k sdiv 1024 = - ((- k) div 1024)"
    by (simp add: signed_divide_int_def sgn_if)
  moreover have "0 \<le> (- k) div 1024" "(- k) div 1024 \<le> - k"
    using False by (simp_all add: pos_imp_zdiv_nonneg_iff zdiv_mono2 [of "- k" 1 1024, simplified])
  ultimately show ?thesis using False by simp
qed

text \<open>Dividing an \<^verbatim>\<open>int64\<close> by 1024 never wraps: the word is the truncated quotient.\<close>

lemma sint_int64_quo_1024: "sint (int64_quo a 1024) = sint a sdiv 1024"
proof -
  have lo: "- (2 ^ 63) \<le> sint a" using sint_ge [of a] by simp
  have hi: "sint a < 2 ^ 63" using sint_lt [of a] by simp
  have "- (2 ^ 63) \<le> sint a sdiv 1024 \<and> sint a sdiv 1024 < 2 ^ 63"
    using lo hi sdiv_1024_between [of "sint a"] by (simp add: min_def max_def split: if_splits)
  then have "signed_take_bit 63 (sint a sdiv 1024) = sint a sdiv 1024"
    by (simp add: signed_take_bit_int_eq_self)
  then show ?thesis
    by (simp add: int64_quo_def sint_sbintrunc')
qed

lemma int64_quo_small:
  assumes "0 <s a" "a <s 1024"
  shows "int64_quo a 1024 = 0"
proof -
  have "0 < sint a" "sint a < 1024"
    using assms by (simp_all add: word_sless_alt)
  then have "sint a sdiv 1024 = 0"
    by (simp add: signed_divide_int_def)
  then show ?thesis by (simp add: int64_quo_def)
qed

lemma upload_bandwidth_key:
  "''upload_bandwidth'' \<in> fst ` set (marshal_fields p) \<longleftrightarrow> up_UploadBandwidth p \<noteq> 0"
  by (simp add: marshal_fields_def omitempty_number_def omitempty_string_def omitempty_array_def
        image_Un signed_eq_0_iff)

lemma download_bandwidth_key:
  "''download_bandwidth'' \<in> fst ` set (marshal_fields p) \<longleftrightarrow> up_DownloadBandwidth p \<noteq> 0"
  by (simp add: marshal_fields_def omitempty_number_def omitempty_string_def omitempty_array_def
        image_Un signed_eq_0_iff)

text \<open>
  Claim C6. When the spec sets bandwidth limits, the payload's upload and
  download bandwidth are the spec's values divided by 1024, Go's division on
  \<^verbatim>\<open>int64\<close> (the quotient truncated towards zero): bytes per second become
  KB/s. The witness is the scenario of the specification: an upload limit of
  1048576 bytes per second gives 1024.
\<close>

theorem UserFromCR_bandwidth_KBs:
  assumes "us_BandwidthLimits spec = Some bl"
  shows "sint (up_UploadBandwidth (UserFromCR spec password publicKeys)) = sint (bl_Upload bl) sdiv 1024
       \<and> sint (up_DownloadBandwidth (UserFromCR spec password publicKeys)) = sint (bl_Download bl) sdiv 1024"
  using assms by (simp add: UserFromCR_def Let_def sint_int64_quo_1024)

theorem UserFromCR_bandwidth_KBs_witness:
  "us_BandwidthLimits ex_spec = Some \<lparr>bl_Upload = 1048576, bl_Download = 512\<rparr>
   \<and> sint (up_UploadBandwidth (UserFromCR ex_spec [] [])) = 1024
   \<and> sint (up_DownloadBandwidth (UserFromCR ex_spec [] [])) = 0"
  using UserFromCR_bandwidth_KBs [of ex_spec "\<lparr>bl_Upload = 1048576, bl_Download = 512\<rparr>" "[]" "[]"]
  by (simp add: ex_spec_def signed_divide_int_def)

text \<open>
  Claim C9. The conversion truncates: an upload limit strictly between 0 and
  1024 bytes per second becomes 0 in the payload, and with \<^verbatim>\<open>omitempty\<close> the
  field \<^verbatim>\<open>upload_bandwidth\<close> is then absent from the JSON body, so the remote
  service is told of no limit at all. Likewise for the download limit.
\<close>

theorem UserFromCR_small_bandwidth_is_zero:
  assumes "us_BandwidthLimits spec = Some bl"
  shows "(0 <s bl_Upload bl \<and> bl_Upload bl <s 1024 \<longrightarrow>
            up_UploadBandwidth (UserFromCR spec password publicKeys) = 0
            \<and> ''upload_bandwidth'' \<notin> fst ` set (marshal_fields (UserFromCR spec password publicKeys)))
       \<and> (0 <s bl_Download bl \<and> bl_Download bl <s 1024 \<longrightarrow>
            up_DownloadBandwidth (UserFromCR spec password publicKeys) = 0
            \<and> ''download_bandwidth'' \<notin> fst ` set (marshal_fields (UserFromCR spec password publicKeys)))"
  using assms
  by (simp add: UserFromCR_def Let_def int64_quo_small upload_bandwidth_key download_bandwidth_key)

theorem UserFromCR_small_bandwidth_is_zero_witness:
  "us_BandwidthLimits (ex_spec\<lparr>us_BandwidthLimits := Some \<lparr>bl_Upload = 1023, bl_Download = 1\<rparr>\<rparr>)
     = Some \<lparr>bl_Upload = 1023, bl_Download = 1\<rparr>
   \<and> (0::int64) <s 1023 \<and> (1023::int64) <s 1024 \<and> (0::int64) <s 1 \<and> (1::int64) <s 1024
   \<and> up_UploadBandwidth
        (UserFromCR (ex_spec\<lparr>us_BandwidthLimits := Some \<lparr>bl_Upload = 1023, bl_Download = 1\<rparr>\<rparr>) ''pw'' []) = 0
   \<and> up_DownloadBandwidth
        (UserFromCR (ex_spec\<lparr>us_BandwidthLimits := Some \<lparr>bl_Upload = 1023, bl_Download = 1\<rparr>\<rparr>) ''pw'' []) = 0"
  using UserFromCR_small_bandwidth_is_zero
          [of "ex_spec\<lparr>us_BandwidthLimits := Some \<lparr>bl_Upload = 1023, bl_Download = 1\<rparr>\<rparr>"
              "\<lparr>bl_Upload = 1023, bl_Download = 1\<rparr>" "''pw''" "[]"]
  by (simp add: word_sless_alt)

section \<open>Defaults and ports of the server\<close>

lemma applyDefaults_fields:
  "ss_Image (applyDefaults s)
     = (if ss_Image (srv_Spec s) = [] then ''docker.io/drakkan/sftpgo:latest'' else ss_Image (srv_Spec s))"
  "ss_Replicas (applyDefaults s)
     = (if ss_Replicas (srv_Spec s) = None then Some 1 else ss_Replicas (srv_Spec s))"
  "ss_SFTPPort (applyDefaults s) = (if ss_SFTPPort (srv_Spec s) = 0 then 2022 else ss_SFTPPort (srv_Spec s))"
  "ss_WebPort (applyDefaults s) = (if ss_WebPort (srv_Spec s) = 0 then 8080 else ss_WebPort (srv_Spec s))"
  "ss_StorageBackend (applyDefaults s)
     = (if ss_StorageBackend (srv_Spec s) = [] then ''sqlite'' else ss_StorageBackend (srv_Spec s))"
  "ss_Config (applyDefaults s) = ss_Config (srv_Spec s)"
  "ss_AdminSecretRef (applyDefaults s) = ss_AdminSecretRef (srv_Spec s)"
  by (simp_all add: applyDefaults_def Let_def sftpgoDefaultImage_def)

text \<open>
  Claim C5. Defaulting replaces the image, the replica count (by 1), the SFTP
  port (by 2022), the web port (by 8080) and the storage backend (by
  \<open>sqlite\<close>) exactly when the field holds Go's zero value, and leaves a set
  field alone. The port the desired state uses (here the ports of the service)
  is the protocol-specific override when that is present and positive, and the
  defaulted top-level port otherwise. The witness is the scenario of the
  specification (nothing set gives 2022, 8080 and \<open>sqlite\<close>) and a server
  whose override 2222 wins over its top-level port 22.
\<close>

theorem applyDefaults_resolved_ports:
  "ss_Image (applyDefaults s)
     = (if ss_Image (srv_Spec s) = [] then ''docker.io/drakkan/sftpgo:latest'' else ss_Image (srv_Spec s))
   \<and> ss_Replicas (applyDefaults s)
     = (if ss_Replicas (srv_Spec s) = None then Some 1 else ss_Replicas (srv_Spec s))
   \<and> ss_SFTPPort (applyDefaults s)
     = (if ss_SFTPPort (srv_Spec s) = 0 then 2022 else ss_SFTPPort (srv_Spec s))
   \<and> ss_WebPort (applyDefaults s)
     = (if ss_WebPort (srv_Spec s) = 0 then 8080 else ss_WebPort (srv_Spec s))
   \<and> ss_StorageBackend (applyDefaults s)
     = (if ss_StorageBackend (srv_Spec s) = [] then ''sqlite'' else ss_StorageBackend (srv_Spec s))
   \<and> getSFTPPort (applyDefaults s)
     = (case cfg_SFTP (ss_Config (srv_Spec s)) of
          Some c \<Rightarrow> if 0 <s pc_Port c then pc_Port c else ss_SFTPPort (applyDefaults s)
        | None \<Rightarrow> ss_SFTPPort (applyDefaults s))
   \<and> getWebPort (applyDefaults s)
     = (case cfg_HTTP (ss_Config (srv_Spec s)) of
          Some c \<Rightarrow> if 0 <s pc_Port c then pc_Port c else ss_WebPort (applyDefaults s)
        | None \<Rightarrow> ss_WebPort (applyDefaults s))
   \<and> map sp_Port (svc_Ports (serviceForServer s))
     = [getSFTPPort (applyDefaults s), getWebPort (applyDefaults s)]"
proof (intro conjI)
  show "getSFTPPort (applyDefaults s)
     = (case cfg_SFTP (ss_Config (srv_Spec s)) of
          Some c \<Rightarrow> if 0 <s pc_Port c then pc_Port c else ss_SFTPPort (applyDefaults s)
        | None \<Rightarrow> ss_SFTPPort (applyDefaults s))"
    by (simp only: getSFTPPort_def applyDefaults_fields)
  show "getWebPort (applyDefaults s)
     = (case cfg_HTTP (ss_Config (srv_Spec s)) of
          Some c \<Rightarrow> if 0 <s pc_Port c then pc_Port c else ss_WebPort (applyDefaults s)
        | None \<Rightarrow> ss_WebPort (applyDefaults s))"
    by (simp only: getWebPort_def applyDefaults_fields)
  show "map sp_Port (svc_Ports (serviceForServer s))
     = [getSFTPPort (applyDefaults s), getWebPort (applyDefaults s)]"
    by (simp add: serviceForServer_def Let_def)
qed (simp_all only: applyDefaults_fields)

theorem applyDefaults_resolved_ports_witness:
  "ss_Image (applyDefaults ex_server) = ''docker.io/drakkan/sftpgo:latest''
   \<and> ss_Replicas (applyDefaults ex_server) = Some 1
   \<and> getSFTPPort (applyDefaults ex_server) = 2022
   \<and> getWebPort (applyDefaults ex_server) = 8080
   \<and> ss_StorageBackend (applyDefaults ex_server) = ''sqlite''
   \<and> getSFTPPort (applyDefaults (ex_server\<lparr>srv_Spec := ex_server_spec
        \<lparr>ss_SFTPPort := 22, ss_Config := \<lparr>cfg_SFTP = Some \<lparr>pc_Port = 2222\<rparr>, cfg_HTTP = None\<rparr>\<rparr>\<rparr>)) = 2222"
  using applyDefaults_resolved_ports [of ex_server]
    applyDefaults_resolved_ports [of "ex_server\<lparr>srv_Spec := ex_server_spec
        \<lparr>ss_SFTPPort := 22, ss_Config := \<lparr>cfg_SFTP = Some \<lparr>pc_Port = 2222\<rparr>, cfg_HTTP = None\<rparr>\<rparr>\<rparr>"]
  by (simp add: ex_server_def ex_server_spec_def word_sless_alt)

section \<open>The configuration artifact\<close>

lemma sftpgoMinimalConfig_depends:
  assumes "ss_SFTPPort a = ss_SFTPPort b" "cfg_SFTP (ss_Config a) = cfg_SFTP (ss_Config b)"
    "ss_StorageBackend a = ss_StorageBackend b"
  shows "sftpgoMinimalConfig a admin = sftpgoMinimalConfig b admin"
  unfolding sftpgoMinimalConfig_def assms by (rule refl)

lemma sftpgoMinimalConfig_ignores_web:
  "sftpgoMinimalConfig (spec\<lparr>ss_WebPort := w, ss_Config := (ss_Config spec)\<lparr>cfg_HTTP := h\<rparr>\<rparr>) admin
     = sftpgoMinimalConfig spec admin"
  by (rule sftpgoMinimalConfig_depends) simp_all

text \<open>
  Claim C10. The generated \<^verbatim>\<open>sftpgo.json\<close> always ends with the httpd block
  that binds port 8080: changing the spec's web port or its HTTP port override
  changes neither the text nor the ConfigMap built from it. The sftpd binding,
  at the head of the text, does follow the spec: the SFTP override when present
  and positive, else the top-level SFTP port when positive, else 2022.
\<close>

theorem config_httpd_port_is_constant:
  \<open>sftpgoMinimalConfig (spec\<lparr>ss_WebPort := w, ss_Config := (ss_Config spec)\<lparr>cfg_HTTP := h\<rparr>\<rparr>) admin
     = sftpgoMinimalConfig spec admin
   \<and> suffix (''  "httpd": {'' @ nl
             @ ''    "bindings": [{"port": 8080, "address": "", "enable_web_admin": true, "enable_rest_api": true}]'' @ nl
             @ ''  }'' @ nl @ ''}'')
        (sftpgoMinimalConfig spec admin)
   \<and> prefix (''{'' @ nl @ ''  "sftpd": {'' @ nl @ ''    "bindings": [{"port": ''
             @ fmt_d (sint (case cfg_SFTP (ss_Config spec) of
                              Some c \<Rightarrow> if 0 <s pc_Port c then pc_Port c
                                        else if 0 <s ss_SFTPPort spec then ss_SFTPPort spec else 2022
                            | None \<Rightarrow> if 0 <s ss_SFTPPort spec then ss_SFTPPort spec else 2022))
             @ '', "address": "", "apply_proxy_config": true}],'')
        (sftpgoMinimalConfig spec admin)
   \<and> configMapForServer
        (s\<lparr>srv_Spec := (srv_Spec s)\<lparr>ss_WebPort := w, ss_Config := (ss_Config (srv_Spec s))\<lparr>cfg_HTTP := h\<rparr>\<rparr>\<rparr>)
     = configMapForServer s\<close>
proof (intro conjI)
  show "sftpgoMinimalConfig (spec\<lparr>ss_WebPort := w, ss_Config := (ss_Config spec)\<lparr>cfg_HTTP := h\<rparr>\<rparr>) admin
     = sftpgoMinimalConfig spec admin"
    by (rule sftpgoMinimalConfig_ignores_web)
next
  show \<open>suffix (''  "httpd": {'' @ nl
             @ ''    "bindings": [{"port": 8080, "address": "", "enable_web_admin": true, "enable_rest_api": true}]'' @ nl
             @ ''  }'' @ nl @ ''}'')
        (sftpgoMinimalConfig spec admin)\<close>
    unfolding sftpgoMinimalConfig_def Let_def
    apply (simp only: append_assoc [symmetric] suffix_def)
    apply (rule exI)
    apply (rule refl)
    done
next
  show \<open>prefix (''{'' @ nl @ ''  "sftpd": {'' @ nl @ ''    "bindings": [{"port": ''
             @ fmt_d (sint (case cfg_SFTP (ss_Config spec) of
                              Some c \<Rightarrow> if 0 <s pc_Port c then pc_Port c
                                        else if 0 <s ss_SFTPPort spec then ss_SFTPPort spec else 2022
                            | None \<Rightarrow> if 0 <s ss_SFTPPort spec then ss_SFTPPort spec else 2022))
             @ '', "address": "", "apply_proxy_config": true}],'')
        (sftpgoMinimalConfig spec admin)\<close>
    unfolding sftpgoMinimalConfig_def Let_def
    apply (simp only: append_assoc prefix_def)
    apply (rule exI)
    apply (rule refl)
    done
next
  let ?s' = "s\<lparr>srv_Spec := (srv_Spec s)\<lparr>ss_WebPort := w, ss_Config := (ss_Config (srv_Spec s))\<lparr>cfg_HTTP := h\<rparr>\<rparr>\<rparr>"
  have same: "sftpgoMinimalConfig (applyDefaults ?s') b = sftpgoMinimalConfig (applyDefaults s) b" for b
    by (rule sftpgoMinimalConfig_depends) (simp_all add: applyDefaults_fields)
  have admin: "ss_AdminSecretRef (applyDefaults ?s') = ss_AdminSecretRef (applyDefaults s)"
    by (simp add: applyDefaults_fields)
  have names: "srv_Name ?s' = srv_Name s" "srv_Namespace ?s' = srv_Namespace s"
    by simp_all
  show "configMapForServer ?s' = configMapForServer s"
    unfolding configMapForServer_def Let_def same admin names by (rule refl)
qed

theorem config_httpd_port_is_constant_witness:
  "sftpgoMinimalConfig (ex_server_spec\<lparr>ss_WebPort := 9090,
       ss_Config := (ss_Config ex_server_spec)\<lparr>cfg_HTTP := Some \<lparr>pc_Port = 9443\<rparr>\<rparr>\<rparr>) True
     = sftpgoMinimalConfig ex_server_spec True"
  by (rule config_httpd_port_is_constant
        [where spec = ex_server_spec and w = 9090 and h = "Some \<lparr>pc_Port = 9443\<rparr>" and admin = True,
         THEN conjunct1])

section \<open>The user reconciler: what a pass sends and writes\<close>

text \<open>After \<^verbatim>\<open>SetStatusCondition\<close> the condition of the new type reads as the new one.\<close>

lemma SetStatusCondition_sets:
  "\<exists>c. FindStatusCondition (SetStatusCondition t cs new) (cond_Type new) = Some c
       \<and> cond_Status c = cond_Status new \<and> cond_Reason c = cond_Reason new
       \<and> cond_Message c = cond_Message new"
  by (induction cs) (auto simp: FindStatusCondition_def Let_def)

text \<open>What the client operations hand to the transport.\<close>

lemma GetUser_answered:
  assumes "GetUser e c u = (calls, Inr r)"
  shows "map req_Method calls = [MethodGet]"
  using assms
  by (auto simp: GetUser_def Let_def setAuth_def split: option.splits sum.splits if_splits)

lemma upsertUser_requests:
  assumes "r \<in> set (fst (upsertUser e c m sfx p))"
  shows "req_Method r = m \<and> req_Body r = Some (marshal p)"
  using assms
  by (auto simp: upsertUser_def Let_def setAuth_def split: option.splits sum.splits if_splits)

lemma Reconcile_rejects_create:
  assumes get: "k8s_GetUser e req = Inr user"
    and fin: "ContainsFinalizer user sftpgoUserFinalizer"
    and live: "u_DeletionTimestamp user = None"
    and srv: "k8s_GetServer e (serverKey user) = Inr server"
    and creds: "getAdminCredentials e server = Inr (username, password)" "username \<noteq> []" "password \<noteq> []"
    and pw: "resolvePassword e user = Inr []"
    and keys: "resolvePublicKeys e user = Inr []"
    and absent: "GetUser e (adminClient user server username password) (us_Username (u_Spec user))
                   = (calls, Inr None)"
  shows "Reconcile e req =
           returns False None calls
             [StatusUpdate (setPhase (setCondition (clock e 0) user
                (notReady ''ValidationError'' ''New user requires either password or publicKeys''))
                ''Error'')]"
  using assms
  by (simp add: Reconcile_def Let_def serverKey_def adminClient_def)


lemma GetUser_requests:
  assumes "r \<in> set (fst (GetUser e c u))"
  shows "req_Method r = MethodGet \<and> req_Body r = None"
  using assms
  by (auto simp: GetUser_def Let_def setAuth_def split: option.splits sum.splits if_splits)

lemma password_key:
  "''password'' \<in> fst ` set (marshal_fields p) \<longleftrightarrow> up_Password p \<noteq> []"
  by (simp add: marshal_fields_def omitempty_number_def omitempty_string_def omitempty_array_def
        image_Un)

lemma id_field:
  "(''id'', v) \<in> set (marshal_fields p) \<longleftrightarrow> up_ID p \<noteq> 0 \<and> v = JNumber (sint (up_ID p))"
  by (auto simp: marshal_fields_def omitempty_number_def omitempty_string_def omitempty_array_def
        signed_eq_0_iff)

lemma UserFromCR_no_password: "up_Password (UserFromCR spec [] keys) = []"
  by (simp add: UserFromCR_def Let_def split: option.splits)

lemma clearing_no_password:
  "(UserFromCR spec [] keys)\<lparr>up_ID := i, up_Password := []\<rparr> = (UserFromCR spec [] keys)\<lparr>up_ID := i\<rparr>"
  using UserFromCR_no_password [of spec keys]
  by (cases "UserFromCR spec [] keys") simp

lemma Reconcile_updates:
  assumes get: "k8s_GetUser e req = Inr user"
    and fin: "ContainsFinalizer user sftpgoUserFinalizer"
    and live: "u_DeletionTimestamp user = None"
    and srv: "k8s_GetServer e (serverKey user) = Inr server"
    and creds: "getAdminCredentials e server = Inr (username, password)" "username \<noteq> []" "password \<noteq> []"
    and pw: "resolvePassword e user = Inr []"
    and keys: "resolvePublicKeys e user = Inr publicKeys"
    and present: "GetUser e (adminClient user server username password) (us_Username (u_Spec user))
                   = (calls, Inr (Some existing))"
  shows "out_calls (Reconcile e req) =
           calls @ fst (UpdateUser e (adminClient user server username password)
                          (us_Username (u_Spec user))
                          ((UserFromCR (u_Spec user) [] publicKeys)\<lparr>up_ID := up_ID existing\<rparr>))"
proof -
  obtain sent r where upd:
    "UpdateUser e (adminClient user server username password) (us_Username (u_Spec user))
       ((UserFromCR (u_Spec user) [] publicKeys)\<lparr>up_ID := up_ID existing\<rparr>) = (sent, r)"
    by (cases "UpdateUser e (adminClient user server username password) (us_Username (u_Spec user))
       ((UserFromCR (u_Spec user) [] publicKeys)\<lparr>up_ID := up_ID existing\<rparr>)")
  show ?thesis
    using assms upd
    by (simp add: Reconcile_def Let_def serverKey_def adminClient_def returns_def
          clearing_no_password split: sum.splits option.splits)
qed

text \<open>
  Claim C1. In a pass that finds the remote user and resolves an empty
  password, the requests of the pass are the lookup followed by what the update
  sends; every request the update sends is a PUT whose JSON body is the
  marshalled payload; that payload carries the identifier of the remote user
  it found and an empty password; and so the body has no \<^verbatim>\<open>password\<close> field at
  all (and has the \<^verbatim>\<open>id\<close> field of the remote user). An update never sends an
  empty credential.
\<close>

theorem update_with_empty_password_omits_it:
  assumes get: "k8s_GetUser e req = Inr user"
    and fin: "ContainsFinalizer user sftpgoUserFinalizer"
    and live: "u_DeletionTimestamp user = None"
    and srv: "k8s_GetServer e (serverKey user) = Inr server"
    and creds: "getAdminCredentials e server = Inr (username, password)" "username \<noteq> []" "password \<noteq> []"
    and pw: "resolvePassword e user = Inr []"
    and keys: "resolvePublicKeys e user = Inr publicKeys"
    and present: "GetUser e (adminClient user server username password) (us_Username (u_Spec user))
                   = (calls, Inr (Some existing))"
  shows "(let payload = (UserFromCR (u_Spec user) [] publicKeys)\<lparr>up_ID := up_ID existing\<rparr>;
              sent = fst (UpdateUser e (adminClient user server username password)
                            (us_Username (u_Spec user)) payload)
          in out_calls (Reconcile e req) = calls @ sent
           \<and> map req_Method calls = [MethodGet]
           \<and> (\<forall>r \<in> set sent. req_Method r = MethodPut \<and> req_Body r = Some (JObject (marshal_fields payload)))
           \<and> up_ID payload = up_ID existing
           \<and> up_Password payload = []
           \<and> ''password'' \<notin> fst ` set (marshal_fields payload)
           \<and> (up_ID existing \<noteq> 0 \<longrightarrow>
                (''id'', JNumber (sint (up_ID existing))) \<in> set (marshal_fields payload)))"
proof -
  let ?payload = "(UserFromCR (u_Spec user) [] publicKeys)\<lparr>up_ID := up_ID existing\<rparr>"
  let ?sent = "fst (UpdateUser e (adminClient user server username password)
                            (us_Username (u_Spec user)) ?payload)"
  have 1: "out_calls (Reconcile e req) = calls @ ?sent"
    using assms by (rule Reconcile_updates)
  have 2: "map req_Method calls = [MethodGet]"
    using present by (rule GetUser_answered)
  have 3: "\<forall>r \<in> set ?sent. req_Method r = MethodPut \<and> req_Body r = Some (JObject (marshal_fields ?payload))"
    using upsertUser_requests [of _ e _ MethodPut _ ?payload]
    by (simp add: UpdateUser_def marshal_def)
  have 4: "up_Password ?payload = []"
    by (simp add: UserFromCR_no_password)
  have 5: "''password'' \<notin> fst ` set (marshal_fields ?payload)"
    by (simp add: password_key 4)
  have 6: "up_ID existing \<noteq> 0 \<longrightarrow>
             (''id'', JNumber (sint (up_ID existing))) \<in> set (marshal_fields ?payload)"
    by (simp add: id_field)
  show ?thesis
    unfolding Let_def using 1 2 3 4 5 6 by simp
qed


text \<open>The example world, evaluated.\<close>

lemmas world_defs =
  ex_env_def ex_user_def ex_spec_def ex_server_def ex_server_spec_def ex_remote_def ex_req_def
  ex_get_def ex_client_def remote_present_def remote_absent_def sftpgoUserFinalizer_def
  ex_leaving_def ex_orphan_def ex_new_user_def ex_bad_secret_user_def

lemma fmt_d_8080: "fmt_d 8080 = ''8080''"
  by (simp add: fmt_d_def digits.simps digit_def)

lemmas pass_defs =
  serverKey_def adminClient_def NewClient_def ServiceURL_def ContainsFinalizer_def
  getAdminCredentials_def resolvePassword_def resolvePublicKeys_def secret_value_def
  GetUser_def setAuth_def Let_def fmt_d_8080

lemma ex_world:
  "k8s_GetUser (ex_env ex_user t) ex_req = Inr ex_user"
  "ContainsFinalizer ex_user sftpgoUserFinalizer"
  "u_DeletionTimestamp ex_user = None"
  "k8s_GetServer (ex_env ex_user t) (serverKey ex_user) = Inr ex_server"
  "getAdminCredentials (ex_env ex_user t) ex_server = Inr (''admin'', ''pw'')"
  "resolvePassword (ex_env ex_user t) ex_user = Inr []"
  "resolvePublicKeys (ex_env ex_user t) ex_user = Inr []"
  "adminClient ex_user ex_server ''admin'' ''pw'' = ex_client"
  by (simp_all add: world_defs pass_defs)

lemma ex_GetUser:
  "GetUser (ex_env ex_user remote_present) ex_client ''alice'' = ([ex_get], Inr (Some ex_remote))"
  "GetUser (ex_env ex_user remote_absent) ex_client ''alice'' = ([ex_get], Inr None)"
  by (simp_all add: world_defs pass_defs)

theorem update_with_empty_password_omits_it_witness:
  "resolvePassword (ex_env ex_user remote_present) ex_user = Inr []
   \<and> GetUser (ex_env ex_user remote_present) ex_client ''alice'' = ([ex_get], Inr (Some ex_remote))
   \<and> map req_Method (out_calls (Reconcile (ex_env ex_user remote_present) ex_req)) = [MethodGet, MethodPut]
   \<and> ''password'' \<notin> fst ` set (marshal_fields ((UserFromCR ex_spec [] [])\<lparr>up_ID := 7\<rparr>))
   \<and> (''id'', JNumber 7) \<in> set (marshal_fields ((UserFromCR ex_spec [] [])\<lparr>up_ID := 7\<rparr>))"
proof -
  have c: "fst (UpdateUser (ex_env ex_user remote_present) ex_client ''alice''
             ((UserFromCR ex_spec [] [])\<lparr>up_ID := 7\<rparr>))
           = [\<lparr>req_Method = MethodPut,
               req_URL = ''http://sftp.default.svc.cluster.local:8080/api/v2/users/alice'',
               req_BasicAuth = Some (''admin'', ''pw''), req_ContentType = Some ''application/json'',
               req_Body = Some (marshal ((UserFromCR ex_spec [] [])\<lparr>up_ID := 7\<rparr>))\<rparr>]"
    by (simp add: UpdateUser_def upsertUser_def world_defs pass_defs)
  have u: "u_Spec ex_user = ex_spec" "us_Username ex_spec = ''alice''" "up_ID ex_remote = 7"
    by (simp_all add: world_defs)
  show ?thesis
    using update_with_empty_password_omits_it
            [of "ex_env ex_user remote_present" ex_req ex_user ex_server "''admin''" "''pw''" "[]"
                "[ex_get]" ex_remote]
    by (simp add: ex_world ex_GetUser u c Let_def)
qed


text \<open>
  Claim C2, amended. The claim as stated has the rejected creation make no
  remote call; the pass has by then sent the lookup that found the user absent,
  so that much is false (the counterexample follows the witness below). What
  holds: in a pass that resolves an empty password and no public key and whose
  lookup finds no remote user, the creation is rejected; the lookup is the only
  request of the pass, so no create and no update request is sent; the status
  written has phase \<open>Error\<close> and the condition \<open>Ready\<close> false with reason
  \<open>ValidationError\<close>; and the pass returns without error and without requeue.
\<close>

theorem create_without_credentials_is_rejected:
  assumes get: "k8s_GetUser e req = Inr user"
    and fin: "ContainsFinalizer user sftpgoUserFinalizer"
    and live: "u_DeletionTimestamp user = None"
    and srv: "k8s_GetServer e (serverKey user) = Inr server"
    and creds: "getAdminCredentials e server = Inr (username, password)" "username \<noteq> []" "password \<noteq> []"
    and pw: "resolvePassword e user = Inr []"
    and keys: "resolvePublicKeys e user = Inr []"
    and absent: "GetUser e (adminClient user server username password) (us_Username (u_Spec user))
                   = (calls, Inr None)"
  shows "out_calls (Reconcile e req) = calls
       \<and> map req_Method calls = [MethodGet]
       \<and> (\<exists>u' c. out_writes (Reconcile e req) = [StatusUpdate u']
              \<and> ust_Phase (u_Status u') = ''Error''
              \<and> FindStatusCondition (ust_Conditions (u_Status u')) ''Ready'' = Some c
              \<and> cond_Status c = ConditionFalse
              \<and> cond_Reason c = ''ValidationError''
              \<and> cond_Message c = ''New user requires either password or publicKeys'')
       \<and> out_err (Reconcile e req) = None
       \<and> \<not> out_Requeue (Reconcile e req)"
proof -
  let ?new = "notReady ''ValidationError'' ''New user requires either password or publicKeys''"
  let ?u = "setPhase (setCondition (clock e 0) user ?new) ''Error''"
  have run: "Reconcile e req = returns False None calls [StatusUpdate ?u]"
    using assms by (rule Reconcile_rejects_create)
  have only_get: "map req_Method calls = [MethodGet]"
    using absent by (rule GetUser_answered)
  obtain c where c: "FindStatusCondition (SetStatusCondition (clock e 0) (ust_Conditions (u_Status user)) ?new)
                       (cond_Type ?new) = Some c"
      "cond_Status c = cond_Status ?new" "cond_Reason c = cond_Reason ?new"
      "cond_Message c = cond_Message ?new"
    using SetStatusCondition_sets by blast
  have "out_writes (Reconcile e req) = [StatusUpdate ?u]"
       "ust_Phase (u_Status ?u) = ''Error''"
       "FindStatusCondition (ust_Conditions (u_Status ?u)) ''Ready'' = Some c"
       "cond_Status c = ConditionFalse" "cond_Reason c = ''ValidationError''"
       "cond_Message c = ''New user requires either password or publicKeys''"
    using c by (simp_all add: run returns_def setPhase_def setCondition_def notReady_def)
  then have written: "\<exists>u' c. out_writes (Reconcile e req) = [StatusUpdate u']
              \<and> ust_Phase (u_Status u') = ''Error''
              \<and> FindStatusCondition (ust_Conditions (u_Status u')) ''Ready'' = Some c
              \<and> cond_Status c = ConditionFalse
              \<and> cond_Reason c = ''ValidationError''
              \<and> cond_Message c = ''New user requires either password or publicKeys''"
    by blast
  show ?thesis
    using only_get written by (simp add: run returns_def)
qed

theorem create_without_credentials_is_rejected_witness:
  "resolvePassword (ex_env ex_user remote_absent) ex_user = Inr []
   \<and> resolvePublicKeys (ex_env ex_user remote_absent) ex_user = Inr []
   \<and> GetUser (ex_env ex_user remote_absent) ex_client ''alice'' = ([ex_get], Inr None)
   \<and> out_calls (Reconcile (ex_env ex_user remote_absent) ex_req) = [ex_get]
   \<and> out_err (Reconcile (ex_env ex_user remote_absent) ex_req) = None"
proof -
  have u: "u_Spec ex_user = ex_spec" "us_Username ex_spec = ''alice''"
    by (simp_all add: world_defs)
  show ?thesis
    using create_without_credentials_is_rejected
            [of "ex_env ex_user remote_absent" ex_req ex_user ex_server "''admin''" "''pw''" "[ex_get]"]
    by (simp add: ex_world ex_GetUser u)
qed

text \<open>
  The same pass on alice, who brings neither password nor key and is unknown to
  the remote service: the creation is rejected, and the requests of the pass
  are not none, they are the lookup.
\<close>

theorem create_rejection_sends_lookup_counterexample:
  "resolvePassword (ex_env ex_user remote_absent) ex_user = Inr []
   \<and> resolvePublicKeys (ex_env ex_user remote_absent) ex_user = Inr []
   \<and> GetUser (ex_env ex_user remote_absent) ex_client ''alice'' = ([ex_get], Inr None)
   \<and> out_calls (Reconcile (ex_env ex_user remote_absent) ex_req) = [ex_get]
   \<and> out_calls (Reconcile (ex_env ex_user remote_absent) ex_req) \<noteq> []"
proof -
  have u: "u_Spec ex_user = ex_spec" "us_Username ex_spec = ''alice''"
    by (simp_all add: world_defs)
  have "Reconcile (ex_env ex_user remote_absent) ex_req =
          returns False None [ex_get]
            [StatusUpdate (setPhase (setCondition (clock (ex_env ex_user remote_absent) 0) ex_user
               (notReady ''ValidationError'' ''New user requires either password or publicKeys''))
               ''Error'')]"
    by (rule Reconcile_rejects_create [where server = ex_server and username = "''admin''"
          and password = "''pw''"])
       (simp_all add: ex_world ex_GetUser u)
  then show ?thesis
    by (simp add: ex_world ex_GetUser returns_def)
qed

section \<open>Deletion\<close>

lemma deleteUserFromSFTPGO_by_key:
  "deleteUserFromSFTPGO e user =
     (case k8s_GetServer e (serverKey user) of
        Inl err \<Rightarrow> if IsNotFound err then ([], None) else ([], Some err)
      | Inr server \<Rightarrow>
          (case getAdminCredentials e server of
             Inl err \<Rightarrow> ([], None)
           | Inr (username, password) \<Rightarrow>
               if username = [] \<or> password = [] then ([], None)
               else DeleteUser e (adminClient user server username password)
                      (us_Username (u_Spec user))))"
  unfolding deleteUserFromSFTPGO_def serverKey_def adminClient_def Let_def fst_conv
  by (rule refl)

lemma deleteUserFromSFTPGO_skips:
  assumes "(\<exists>err. k8s_GetServer e (serverKey user) = Inl err \<and> IsNotFound err)
         \<or> (\<exists>server. k8s_GetServer e (serverKey user) = Inr server
               \<and> (case getAdminCredentials e server of
                     Inl err \<Rightarrow> True
                   | Inr (username, password) \<Rightarrow> username = [] \<or> password = []))"
  shows "deleteUserFromSFTPGO e user = ([], None)"
  using assms
proof (elim disjE exE conjE)
  fix err
  assume "k8s_GetServer e (serverKey user) = Inl err" "IsNotFound err"
  then show ?thesis by (simp add: deleteUserFromSFTPGO_by_key)
next
  fix server
  assume "k8s_GetServer e (serverKey user) = Inr server"
    and "case getAdminCredentials e server of
           Inl err \<Rightarrow> True
         | Inr (username, password) \<Rightarrow> username = [] \<or> password = []"
  then show ?thesis
    by (auto simp: deleteUserFromSFTPGO_by_key split: sum.splits prod.splits)
qed

text \<open>
  Claim C4. Take a user that is being deleted and carries the finalizer. If
  the referenced server does not exist, or the admin credentials cannot be
  resolved (the resolver fails, or the user name or password is empty), the
  remote cleanup is skipped as successful: the pass sends no request, hands the
  object store the user without the finalizer, does not requeue, and its only
  possible error is the store refusing that write (it returns success when the
  write is accepted).
\<close>

theorem deletion_skips_cleanup_without_server_or_credentials:
  assumes get: "k8s_GetUser e req = Inr user"
    and fin: "ContainsFinalizer user sftpgoUserFinalizer"
    and deleting: "u_DeletionTimestamp user \<noteq> None"
    and skip: "(\<exists>err. k8s_GetServer e (serverKey user) = Inl err \<and> IsNotFound err)
         \<or> (\<exists>server. k8s_GetServer e (serverKey user) = Inr server
               \<and> (case getAdminCredentials e server of
                     Inl err \<Rightarrow> True
                   | Inr (username, password) \<Rightarrow> username = [] \<or> password = []))"
  shows "deleteUserFromSFTPGO e user = ([], None)
       \<and> out_calls (Reconcile e req) = []
       \<and> out_writes (Reconcile e req) = [Update (RemoveFinalizer user sftpgoUserFinalizer)]
       \<and> \<not> ContainsFinalizer (RemoveFinalizer user sftpgoUserFinalizer) sftpgoUserFinalizer
       \<and> out_err (Reconcile e req) = k8s_Update e (RemoveFinalizer user sftpgoUserFinalizer)
       \<and> \<not> out_Requeue (Reconcile e req)"
proof -
  have del: "deleteUserFromSFTPGO e user = ([], None)"
    using skip by (rule deleteUserFromSFTPGO_skips)
  have gone: "\<not> ContainsFinalizer (RemoveFinalizer user sftpgoUserFinalizer) sftpgoUserFinalizer"
    by (simp add: ContainsFinalizer_def RemoveFinalizer_def)
  have run: "Reconcile e req =
      (case k8s_Update e (RemoveFinalizer user sftpgoUserFinalizer) of
         Some err \<Rightarrow> returns False (Some err) [] [Update (RemoveFinalizer user sftpgoUserFinalizer)]
       | None \<Rightarrow> returns False None [] [Update (RemoveFinalizer user sftpgoUserFinalizer)])"
    using get fin deleting by (simp add: Reconcile_def del Let_def)
  show ?thesis
    using del gone by (simp add: run returns_def split: option.splits)
qed

theorem deletion_skips_cleanup_without_server_or_credentials_witness:
  "k8s_GetServer (ex_env ex_orphan remote_present) (serverKey ex_orphan)
     = Inl (NotFound ''sftpgoservers not found'')
   \<and> out_calls (Reconcile (ex_env ex_orphan remote_present) ex_req) = []
   \<and> out_err (Reconcile (ex_env ex_orphan remote_present) ex_req) = None
   \<and> map (\<lambda>w. u_Finalizers (written_user w))
        (out_writes (Reconcile (ex_env ex_orphan remote_present) ex_req)) = [[]]
   \<and> getAdminCredentials
        ((ex_env ex_leaving remote_present)\<lparr>k8s_GetSecret := \<lambda>k. Inl (Failure ''forbidden'')\<rparr>) ex_server
     = Inl (Failure ''forbidden'')
   \<and> out_calls (Reconcile
        ((ex_env ex_leaving remote_present)\<lparr>k8s_GetSecret := \<lambda>k. Inl (Failure ''forbidden'')\<rparr>) ex_req) = []
   \<and> out_err (Reconcile
        ((ex_env ex_leaving remote_present)\<lparr>k8s_GetSecret := \<lambda>k. Inl (Failure ''forbidden'')\<rparr>) ex_req) = None"
  using deletion_skips_cleanup_without_server_or_credentials
          [of "ex_env ex_orphan remote_present" ex_req ex_orphan]
        deletion_skips_cleanup_without_server_or_credentials
          [of "(ex_env ex_leaving remote_present)\<lparr>k8s_GetSecret := \<lambda>k. Inl (Failure ''forbidden'')\<rparr>"
              ex_req ex_leaving]
  by (simp add: world_defs pass_defs RemoveFinalizer_def)


section \<open>Failures while resolving the user's credentials\<close>

text \<open>
  A failure of \<^verbatim>\<open>resolvePassword\<close> or \<^verbatim>\<open>resolvePublicKeys\<close> ends the pass
  with that error and nothing else: no write to the object store, no request.
\<close>

lemma Reconcile_resolve_failure:
  assumes get: "k8s_GetUser e req = Inr user"
    and fin: "ContainsFinalizer user sftpgoUserFinalizer"
    and live: "u_DeletionTimestamp user = None"
    and srv: "k8s_GetServer e (serverKey user) = Inr server"
    and creds: "getAdminCredentials e server = Inr (username, password)" "username \<noteq> []" "password \<noteq> []"
    and fails: "(\<exists>err'. resolvePassword e user = Inl err' \<and> err = err')
              \<or> (\<exists>pw. resolvePassword e user = Inr pw \<and> resolvePublicKeys e user = Inl err)"
  shows "Reconcile e req = returns False (Some err) [] []"
  using assms
  by (auto simp: Reconcile_def Let_def serverKey_def)

lemma ex_bad_secret:
  "k8s_GetUser (ex_env ex_bad_secret_user t) ex_req = Inr ex_bad_secret_user"
  "ContainsFinalizer ex_bad_secret_user sftpgoUserFinalizer"
  "u_DeletionTimestamp ex_bad_secret_user = None"
  "k8s_GetServer (ex_env ex_bad_secret_user t) (serverKey ex_bad_secret_user) = Inr ex_server"
  "getAdminCredentials (ex_env ex_bad_secret_user t) ex_server = Inr (''admin'', ''pw'')"
  "resolvePassword (ex_env ex_bad_secret_user t) ex_bad_secret_user = Inl (NotFound ''secrets not found'')"
  by (simp_all add: world_defs pass_defs)

text \<open>
  Claim C8 asks that every failing pass update the condition list before it
  returns, a failure to resolve the password or the public keys included. The
  pass does so for a missing server, for the admin credentials and for the
  remote calls, but not here: for a user whose password secret does not exist
  the pass returns the lookup error and writes no status at all, so the
  conditions stay as they were.
\<close>

theorem password_secret_failure_sets_no_condition:
  "resolvePassword (ex_env ex_bad_secret_user remote_present) ex_bad_secret_user
     = Inl (NotFound ''secrets not found'')
   \<and> out_err (Reconcile (ex_env ex_bad_secret_user remote_present) ex_req)
     = Some (NotFound ''secrets not found'')
   \<and> out_writes (Reconcile (ex_env ex_bad_secret_user remote_present) ex_req) = []
   \<and> out_calls (Reconcile (ex_env ex_bad_secret_user remote_present) ex_req) = []"
  using Reconcile_resolve_failure
          [of "ex_env ex_bad_secret_user remote_present" ex_req ex_bad_secret_user ex_server
              "''admin''" "''pw''" "NotFound ''secrets not found''"]
  by (simp add: ex_bad_secret returns_def)

section \<open>Deleting a remote user that is not there\<close>

text \<open>Whatever the user name, a 404 answer to the DELETE comes back as an error.\<close>

lemma DeleteUser_404:
  assumes "\<And>url. http_NewRequest e MethodDelete url = None"
    and "\<And>r. http_Do e r = Inr resp"
    and "resp_StatusCode resp = 404"
  shows "snd (DeleteUser e c username) = Some (APIReturned 404)"
  using assms by (simp add: DeleteUser_def Let_def)

lemma ex_leaving_world:
  "k8s_GetUser (ex_env ex_leaving t) ex_req = Inr ex_leaving"
  "ContainsFinalizer ex_leaving sftpgoUserFinalizer"
  "u_DeletionTimestamp ex_leaving = Some 5"
  "k8s_GetServer (ex_env ex_leaving t) (serverKey ex_leaving) = Inr ex_server"
  "getAdminCredentials (ex_env ex_leaving t) ex_server = Inr (''admin'', ''pw'')"
  "adminClient ex_leaving ex_server ''admin'' ''pw'' = ex_client"
  "us_Username (u_Spec ex_leaving) = ''alice''"
  by (simp_all add: world_defs pass_defs)

lemma ex_DeleteUser:
  "DeleteUser (ex_env u remote_absent) ex_client ''alice'' = ([ex_delete], Some (APIReturned 404))"
  by (simp add: DeleteUser_def ex_delete_def world_defs pass_defs)

text \<open>
  Claim C3 asks that \<^verbatim>\<open>DeleteUser\<close> succeed when the remote service answers
  that the user does not exist. \<^verbatim>\<open>GetUser\<close> reads a 404 as absence, but
  \<^verbatim>\<open>DeleteUser\<close> accepts status 200 only: on a 404 it returns the error
  \<open>API returned 404\<close>, and the pass that deletes such a user returns that
  error without removing the finalizer.
\<close>

theorem DeleteUser_not_found_is_an_error:
  "DeleteUser (ex_env ex_leaving remote_absent) ex_client ''alice''
     = ([ex_delete], Some (APIReturned 404))
   \<and> out_err (Reconcile (ex_env ex_leaving remote_absent) ex_req) = Some (APIReturned 404)
   \<and> out_calls (Reconcile (ex_env ex_leaving remote_absent) ex_req) = [ex_delete]
   \<and> out_writes (Reconcile (ex_env ex_leaving remote_absent) ex_req) = []"
proof -
  have "deleteUserFromSFTPGO (ex_env ex_leaving remote_absent) ex_leaving
          = ([ex_delete], Some (APIReturned 404))"
    by (simp add: deleteUserFromSFTPGO_by_key ex_leaving_world ex_DeleteUser)
  then have "Reconcile (ex_env ex_leaving remote_absent) ex_req
          = returns False (Some (APIReturned 404)) [ex_delete] []"
    by (simp add: Reconcile_def ex_leaving_world)
  then show ?thesis
    by (simp add: ex_DeleteUser returns_def)
qed


section \<open>The status after a successful pass\<close>

lemma synced_status:
  "ust_Phase (u_Status (synced e user)) = ''Synced''"
  "ust_LastSynced (u_Status (synced e user)) = Some (clock e 0)"
  "ust_UserID (u_Status (synced e user)) = ust_UserID (u_Status user)"
  "\<exists>c. FindStatusCondition (ust_Conditions (u_Status (synced e user))) ''Ready'' = Some c
       \<and> cond_Status c = ConditionTrue \<and> cond_Reason c = ''Synced''"
proof -
  let ?new = "\<lparr>cond_Type = ''Ready'', cond_Status = ConditionTrue, cond_Reason = ''Synced'',
                cond_Message = [], cond_LastTransitionTime = None\<rparr>"
  show "ust_Phase (u_Status (synced e user)) = ''Synced''"
    "ust_LastSynced (u_Status (synced e user)) = Some (clock e 0)"
    "ust_UserID (u_Status (synced e user)) = ust_UserID (u_Status user)"
    by (simp_all add: synced_def Let_def setPhase_def setCondition_def)
  have "\<exists>c. FindStatusCondition
              (SetStatusCondition (clock e 1) (ust_Conditions (u_Status user)) ?new) (cond_Type ?new) = Some c
            \<and> cond_Status c = cond_Status ?new \<and> cond_Reason c = cond_Reason ?new
            \<and> cond_Message c = cond_Message ?new"
    by (rule SetStatusCondition_sets)
  then show "\<exists>c. FindStatusCondition (ust_Conditions (u_Status (synced e user))) ''Ready'' = Some c
       \<and> cond_Status c = ConditionTrue \<and> cond_Reason c = ''Synced''"
    by (auto simp: synced_def Let_def setPhase_def setCondition_def)
qed

text \<open>
  After a successful create the status written is the one above, its
  \<^verbatim>\<open>UserID\<close> untouched; after a successful update it also records the
  identifier of the remote user that the lookup found.
\<close>

lemma Reconcile_after_create:
  assumes get: "k8s_GetUser e req = Inr user"
    and fin: "ContainsFinalizer user sftpgoUserFinalizer"
    and live: "u_DeletionTimestamp user = None"
    and srv: "k8s_GetServer e (serverKey user) = Inr server"
    and creds: "getAdminCredentials e server = Inr (username, password)" "username \<noteq> []" "password \<noteq> []"
    and pw: "resolvePassword e user = Inr userPassword"
    and keys: "resolvePublicKeys e user = Inr publicKeys"
    and some: "userPassword \<noteq> [] \<or> publicKeys \<noteq> []"
    and absent: "GetUser e (adminClient user server username password) (us_Username (u_Spec user))
                   = (calls, Inr None)"
    and created: "CreateUser e (adminClient user server username password)
                    (UserFromCR (u_Spec user) userPassword publicKeys) = (calls', Inr written)"
  shows "Reconcile e req =
           returns False (k8s_StatusUpdate e (synced e user)) (calls @ calls')
             [StatusUpdate (synced e user)]"
  using assms
  by (auto simp: Reconcile_def Let_def serverKey_def adminClient_def synced_def returns_def
        split: option.splits)

lemma Reconcile_after_update:
  assumes get: "k8s_GetUser e req = Inr user"
    and fin: "ContainsFinalizer user sftpgoUserFinalizer"
    and live: "u_DeletionTimestamp user = None"
    and srv: "k8s_GetServer e (serverKey user) = Inr server"
    and creds: "getAdminCredentials e server = Inr (username, password)" "username \<noteq> []" "password \<noteq> []"
    and pw: "resolvePassword e user = Inr userPassword"
    and keys: "resolvePublicKeys e user = Inr publicKeys"
    and present: "GetUser e (adminClient user server username password) (us_Username (u_Spec user))
                   = (calls, Inr (Some existing))"
    and updated: "UpdateUser e (adminClient user server username password) (us_Username (u_Spec user))
                    (if userPassword = []
                     then (UserFromCR (u_Spec user) userPassword publicKeys)
                            \<lparr>up_ID := up_ID existing, up_Password := []\<rparr>
                     else (UserFromCR (u_Spec user) userPassword publicKeys)\<lparr>up_ID := up_ID existing\<rparr>)
                  = (calls', Inr written)"
  shows "Reconcile e req =
           returns False
             (k8s_StatusUpdate e
                ((synced e user)\<lparr>u_Status := (u_Status (synced e user))\<lparr>ust_UserID := up_ID existing\<rparr>\<rparr>))
             (calls @ calls')
             [StatusUpdate
                ((synced e user)\<lparr>u_Status := (u_Status (synced e user))\<lparr>ust_UserID := up_ID existing\<rparr>\<rparr>)]"
  using assms
  by (auto simp: Reconcile_def Let_def serverKey_def adminClient_def synced_def returns_def
        split: option.splits if_splits)


lemma ex_new_user_world:
  "k8s_GetUser (ex_env ex_new_user t) ex_req = Inr ex_new_user"
  "ContainsFinalizer ex_new_user sftpgoUserFinalizer"
  "u_DeletionTimestamp ex_new_user = None"
  "k8s_GetServer (ex_env ex_new_user t) (serverKey ex_new_user) = Inr ex_server"
  "getAdminCredentials (ex_env ex_new_user t) ex_server = Inr (''admin'', ''pw'')"
  "resolvePassword (ex_env ex_new_user t) ex_new_user = Inr ''s3cret''"
  "resolvePublicKeys (ex_env ex_new_user t) ex_new_user = Inr []"
  "adminClient ex_new_user ex_server ''admin'' ''pw'' = ex_client"
  "us_Username (u_Spec ex_new_user) = ''alice''"
  "ust_UserID (u_Status ex_new_user) = 0"
  "k8s_StatusUpdate (ex_env ex_new_user t) = (\<lambda>u. None)"
  by (simp_all add: world_defs pass_defs)

lemma ex_absent:
  "GetUser (ex_env u remote_absent) ex_client ''alice'' = ([ex_get], Inr None)"
  "CreateUser (ex_env u remote_absent) ex_client (UserFromCR (u_Spec ex_new_user) ''s3cret'' [])
     = ([ex_post], Inr ex_remote)"
  by (simp_all add: CreateUser_def upsertUser_def ex_post_def ex_env_def ex_get_def ex_client_def
        remote_absent_def NewClient_def GetUser_def setAuth_def Let_def)

text \<open>
  Claim C7 asks that a fully successful pass write condition \<open>Ready\<close> true,
  phase \<open>Synced\<close>, a last-synced time and the remote identifier, whether the
  user was created or updated. The update path does. The create path drops
  the user that \<^verbatim>\<open>CreateUser\<close> returns: for a new user with a password,
  whom the remote service creates under the identifier 7, the status written
  has phase \<open>Synced\<close> and \<^verbatim>\<open>UserID\<close> 0.
\<close>

theorem create_pass_records_no_UserID:
  "CreateUser (ex_env ex_new_user remote_absent) ex_client (UserFromCR (u_Spec ex_new_user) ''s3cret'' [])
     = ([ex_post], Inr ex_remote)
   \<and> up_ID ex_remote = 7
   \<and> out_err (Reconcile (ex_env ex_new_user remote_absent) ex_req) = None
   \<and> out_calls (Reconcile (ex_env ex_new_user remote_absent) ex_req) = [ex_get, ex_post]
   \<and> map (\<lambda>w. ust_Phase (u_Status (written_user w)))
         (out_writes (Reconcile (ex_env ex_new_user remote_absent) ex_req)) = [''Synced'']
   \<and> map (\<lambda>w. ust_UserID (u_Status (written_user w)))
         (out_writes (Reconcile (ex_env ex_new_user remote_absent) ex_req)) = [0]"
proof -
  have run: "Reconcile (ex_env ex_new_user remote_absent) ex_req =
           returns False (k8s_StatusUpdate (ex_env ex_new_user remote_absent)
                            (synced (ex_env ex_new_user remote_absent) ex_new_user))
             ([ex_get] @ [ex_post])
             [StatusUpdate (synced (ex_env ex_new_user remote_absent) ex_new_user)]"
    by (rule Reconcile_after_create [where server = ex_server and username = "''admin''"
          and password = "''pw''" and userPassword = "''s3cret''" and publicKeys = "[]"
          and written = ex_remote])
       (simp_all add: ex_new_user_world ex_absent)
  show ?thesis
    by (simp add: run returns_def ex_absent synced_status ex_new_user_world) (simp add: ex_remote_def)
qed

end
